theory Spec2Isabelle
  imports Complex_Main
begin

section \<open>Fixed-size vectors and matrices\<close>

text \<open>
  The library computes with Eigen matrices of \<open>double\<close>. The embedding reads a
  \<open>double\<close> as a real number (exact arithmetic); the one place where the source
  can leave the reals, the division of \<open>convert_emax_to_b0\<close>, is written out.
  \<open>Vector3\<close> is a triple, \<open>Rotation\<close> (a 3x3 matrix) the triple of its rows,
  \<open>Vector6\<close> the pair of its \<open>head<3>()\<close> and \<open>tail<3>()\<close>, and \<open>Matrix63\<close>
  the pair of its \<open>topRows<3>()\<close> and \<open>bottomRows<3>()\<close>.
\<close>

type_synonym Vector3 = "real \<times> real \<times> real"
type_synonym Rotation = "Vector3 \<times> Vector3 \<times> Vector3"
type_synonym Vector6 = "Vector3 \<times> Vector3"
type_synonym Matrix63 = "Rotation \<times> Rotation"

definition Zero3 :: Vector3 where
  "Zero3 = (0, 0, 0)"

definition UnitX :: Vector3 where
  "UnitX = (1, 0, 0)"

definition UnitY :: Vector3 where
  "UnitY = (0, 1, 0)"

fun add3 :: "Vector3 \<Rightarrow> Vector3 \<Rightarrow> Vector3" where
  "add3 (a0, a1, a2) (b0, b1, b2) = (a0 + b0, a1 + b1, a2 + b2)"

fun scale3 :: "real \<Rightarrow> Vector3 \<Rightarrow> Vector3" where
  "scale3 k (a0, a1, a2) = (k * a0, k * a1, k * a2)"

fun neg3 :: "Vector3 \<Rightarrow> Vector3" where
  "neg3 (a0, a1, a2) = (- a0, - a1, - a2)"

fun dot3 :: "Vector3 \<Rightarrow> Vector3 \<Rightarrow> real" where
  "dot3 (a0, a1, a2) (b0, b1, b2) = a0 * b0 + a1 * b1 + a2 * b2"

fun cross :: "Vector3 \<Rightarrow> Vector3 \<Rightarrow> Vector3" where
  "cross (a0, a1, a2) (b0, b1, b2) =
     (a1 * b2 - a2 * b1, a2 * b0 - a0 * b2, a0 * b1 - a1 * b0)"

definition norm3 :: "Vector3 \<Rightarrow> real" where
  "norm3 v = sqrt (dot3 v v)"

fun div3 :: "Vector3 \<Rightarrow> real \<Rightarrow> Vector3" where
  "div3 (a0, a1, a2) k = (a0 / k, a1 / k, a2 / k)"

definition normalized :: "Vector3 \<Rightarrow> Vector3" where
  \<comment> \<open>Eigen's \<open>normalize()\<close>: the vector divided by its norm, left as it is when
      the norm is not positive.\<close>
  "normalized v = (if 0 < norm3 v then div3 v (norm3 v) else v)"

definition Zero33 :: Rotation where
  "Zero33 = (Zero3, Zero3, Zero3)"

definition Identity3 :: Rotation where
  "Identity3 = ((1, 0, 0), (0, 1, 0), (0, 0, 1))"

fun neg33 :: "Rotation \<Rightarrow> Rotation" where
  "neg33 (r0, r1, r2) = (neg3 r0, neg3 r1, neg3 r2)"

fun mat33_vec :: "Rotation \<Rightarrow> Vector3 \<Rightarrow> Vector3" where
  "mat33_vec (r0, r1, r2) v = (dot3 r0 v, dot3 r1 v, dot3 r2 v)"

fun vec_mat33 :: "Vector3 \<Rightarrow> Rotation \<Rightarrow> Vector3" where
  \<comment> \<open>a row vector times a 3x3 matrix\<close>
  "vec_mat33 (a0, a1, a2) (r0, r1, r2) =
     add3 (scale3 a0 r0) (add3 (scale3 a1 r1) (scale3 a2 r2))"

text \<open>\<open>crossMatrix\<close> of \<open>util.cpp\<close>: a zero matrix with six entries set.\<close>

fun crossMatrix :: "Vector3 \<Rightarrow> Rotation" where
  "crossMatrix (x0, x1, x2) =
     ((0, - x2, x1),
      (x2, 0, - x0),
      (- x1, x0, 0))"

definition Zero6 :: Vector6 where
  "Zero6 = (Zero3, Zero3)"

fun add6 :: "Vector6 \<Rightarrow> Vector6 \<Rightarrow> Vector6" where
  "add6 (a, b) (c, d) = (add3 a c, add3 b d)"

fun neg6 :: "Vector6 \<Rightarrow> Vector6" where
  "neg6 (a, b) = (neg3 a, neg3 b)"

fun dot6 :: "Vector6 \<Rightarrow> Vector6 \<Rightarrow> real" where
  "dot6 (a, b) (c, d) = dot3 a c + dot3 b d"

fun mat63_vec :: "Matrix63 \<Rightarrow> Vector3 \<Rightarrow> Vector6" where
  "mat63_vec (upper, lower) v = (mat33_vec upper v, mat33_vec lower v)"

fun vec_mat63 :: "Vector6 \<Rightarrow> Matrix63 \<Rightarrow> Vector3" where
  \<comment> \<open>a row of six coefficients times a 6x3 matrix\<close>
  "vec_mat63 (a, b) (upper, lower) = add3 (vec_mat33 a upper) (vec_mat33 b lower)"

fun list3 :: "Vector3 \<Rightarrow> real list" where
  "list3 (a0, a1, a2) = [a0, a1, a2]"

fun list6 :: "Vector6 \<Rightarrow> real list" where
  "list6 (a, b) = list3 a @ list3 b"

definition coeff6 :: "Vector6 \<Rightarrow> nat \<Rightarrow> real" where
  "coeff6 v k = list6 v ! k"

fun set_coeff3 :: "Vector3 \<Rightarrow> nat \<Rightarrow> real \<Rightarrow> Vector3" where
  "set_coeff3 (a0, a1, a2) k x =
     (if k = 0 then (x, a1, a2) else if k = 1 then (a0, x, a2) else (a0, a1, x))"

fun set_coeff6 :: "Vector6 \<Rightarrow> nat \<Rightarrow> real \<Rightarrow> Vector6" where
  "set_coeff6 (a, b) k x =
     (if k < 3 then (set_coeff3 a k x, b) else (a, set_coeff3 b (k - 3) x))"

section \<open>The engine's state\<close>

datatype StaticEquilibriumAlgorithm =
    STATIC_EQUILIBRIUM_ALGORITHM_LP
  | STATIC_EQUILIBRIUM_ALGORITHM_LP2
  | STATIC_EQUILIBRIUM_ALGORITHM_DLP
  | STATIC_EQUILIBRIUM_ALGORITHM_PP
  | STATIC_EQUILIBRIUM_ALGORITHM_IP
  | STATIC_EQUILIBRIUM_ALGORITHM_DIP

text \<open>
  Modelled from the spec: the declarations of the enumerations \<open>LP_status\<close> and
  \<open>SolverLP\<close> are in headers that are not part of the sources. \<open>LP_status\<close> has
  the four values the spec lists, which are the four the code names; of \<open>SolverLP\<close>
  the code names \<open>SOLVER_LP_QPOASES\<close> only, every other backend is
  \<open>SOLVER_LP_OTHER\<close>.
\<close>

datatype LP_status =
    LP_STATUS_OPTIMAL
  | LP_STATUS_INFEASIBLE
  | LP_STATUS_UNBOUNDED
  | LP_STATUS_ERROR

datatype SolverLP = SOLVER_LP_QPOASES | SOLVER_LP_OTHER

text \<open>
  The members of \<open>StaticEquilibrium\<close>. \<open>m_G_centr\<close> (6 x m) is the list of its
  columns; \<open>m_H\<close> (k x 6) and \<open>m_HD\<close> (k x 3) are the lists of their rows. The
  solver object behind \<open>m_solver\<close> is external: its state is a value of the type
  parameter.
\<close>

record 'sv StaticEquilibrium =
  m_name :: string
  m_solver_type :: SolverLP
  m_solver :: 'sv
  m_algorithm :: StaticEquilibriumAlgorithm
  m_generatorsPerContact :: nat
  m_mass :: real
  m_gravity :: Vector3
  m_G_centr :: "Vector6 list"
  m_H :: "Vector6 list"
  m_h :: "real list"
  m_HD :: "Vector3 list"
  m_Hd :: "real list"
  m_d :: Vector6
  m_D :: Matrix63
  m_b0_to_emax_coefficient :: real

subsection \<open>Construction\<close>

text \<open>
  The constructor sets neither \<open>m_algorithm\<close> nor \<open>m_b0_to_emax_coefficient\<close>:
  their first values are indeterminate and come as the arguments \<open>alg0\<close> and
  \<open>coeff0\<close>. The matrices not mentioned are default-constructed, hence empty.
  \<open>getNewSolver\<close> and \<open>setUseWarmStart\<close> belong to the external solver. The
  one-time \<open>init_cdd_library\<close> touches no member and is left out.
\<close>

definition StaticEquilibrium_new ::
  "(SolverLP \<Rightarrow> 'sv) \<Rightarrow> (bool \<Rightarrow> 'sv \<Rightarrow> 'sv) \<Rightarrow> StaticEquilibriumAlgorithm \<Rightarrow> real \<Rightarrow>
   string \<Rightarrow> real \<Rightarrow> nat \<Rightarrow> SolverLP \<Rightarrow> bool \<Rightarrow> 'sv StaticEquilibrium" where
  "StaticEquilibrium_new getNewSolver setUseWarmStart alg0 coeff0
       name mass generatorsPerContact solver_type useWarmStart =
     (let generatorsPerContact' = (if generatorsPerContact < 3 then 3 else generatorsPerContact);
          gravity = (0, 0, - 981 / 100)
      in \<lparr> m_name = name,
           m_solver_type = solver_type,
           m_solver = setUseWarmStart useWarmStart (getNewSolver solver_type),
           m_algorithm = alg0,
           m_generatorsPerContact = generatorsPerContact',
           m_mass = mass,
           m_gravity = gravity,
           m_G_centr = [],
           m_H = [],
           m_h = [],
           m_HD = [],
           m_Hd = [],
           m_d = (scale3 mass gravity, Zero3),
           m_D = (Zero33, crossMatrix (scale3 (- mass) gravity)),
           m_b0_to_emax_coefficient = coeff0 \<rparr>)"

subsection \<open>Conversion between \<open>b0\<close> and \<open>e_max\<close>\<close>

definition convert_b0_to_emax :: "'sv StaticEquilibrium \<Rightarrow> real \<Rightarrow> real" where
  "convert_b0_to_emax st b0 = b0 * m_b0_to_emax_coefficient st"

text \<open>
  \<open>emax / m_b0_to_emax_coefficient\<close>: with a zero coefficient the \<open>double\<close>
  division gives an infinity or a NaN, which is no real number: \<open>None\<close>.
\<close>

definition convert_emax_to_b0 :: "'sv StaticEquilibrium \<Rightarrow> real \<Rightarrow> real option" where
  "convert_emax_to_b0 st emax =
     (if m_b0_to_emax_coefficient st = 0 then None
      else Some (emax / m_b0_to_emax_coefficient st))"

section \<open>The cone-projection delegate\<close>

text \<open>
  \<open>cone_span_eigen_to_cdd\<close> of \<open>util.cpp\<close> turns the rows of its input (here the
  columns of the generator matrix, since the caller passes the transpose) into the rows
  of a cdd matrix with a leading 0 each. A cdd row of seven numbers is the pair of
  \<open>matrix[i][0]\<close> and \<open>matrix[i][1..6]\<close>.
\<close>

definition cone_span_eigen_to_cdd :: "Vector6 list \<Rightarrow> (real \<times> Vector6) list" where
  "cone_span_eigen_to_cdd input = map (\<lambda>row. (0, row)) input"

text \<open>
  What \<open>dd_CopyInequalities\<close> gives back: the rows, and \<open>linset\<close>, the set of the
  rows that are equalities. cddlib numbers the elements of \<open>linset\<close> from 1, over
  the ground set \<open>1..rowsize\<close>.
\<close>

record dd_Matrix =
  dd_rows :: "(real \<times> Vector6) list"
  dd_linset :: "nat set"

definition eq_rows_of :: "dd_Matrix \<Rightarrow> nat list" where
  "eq_rows_of b_A = filter (\<lambda>elem. elem \<in> dd_linset b_A) [1 ..< Suc (length (dd_rows b_A))]"

text \<open>
  Modelled as a parameter: the declaration of the type of \<open>m_H\<close> is in a header that
  is not part of the sources, so its storage order is an argument. A single index
  \<open>m_H(k)\<close> addresses the k-th coefficient of the storage.
\<close>

datatype StorageOrder = RowMajor | ColMajor

definition linear_pos :: "StorageOrder \<Rightarrow> nat \<Rightarrow> nat \<Rightarrow> nat \<times> nat" where
  "linear_pos ord nrows k =
     (case ord of RowMajor \<Rightarrow> (k div 6, k mod 6) | ColMajor \<Rightarrow> (k mod nrows, k div nrows))"

definition get_linear :: "StorageOrder \<Rightarrow> Vector6 list \<Rightarrow> nat \<Rightarrow> real" where
  "get_linear ord H k = (let (r, c) = linear_pos ord (length H) k in coeff6 (H ! r) c)"

definition set_linear :: "StorageOrder \<Rightarrow> Vector6 list \<Rightarrow> nat \<Rightarrow> real \<Rightarrow> Vector6 list" where
  "set_linear ord H k x =
     (let (r, c) = linear_pos ord (length H) k in H[r := set_coeff6 (H ! r) c x])"

text \<open>
  Memory that the code allocates and does not initialise (a resized matrix, the local
  \<open>G\<close>) holds indeterminate values: they are read from these arguments. Eigen keeps
  the values of a matrix whose size a \<open>resize\<close> does not change; that case is the
  one where the arguments hold the old values.
\<close>

record fresh_memory =
  fresh_G :: "nat \<Rightarrow> Vector3"
  fresh_G_centr :: "nat \<Rightarrow> Vector6"
  fresh_H :: "nat \<Rightarrow> Vector6"
  fresh_h :: "nat \<Rightarrow> real"

datatype failure =
    Assertion_rows
  | Algorithm_IP_not_implemented
  | Algorithm_DIP_not_implemented
  | Normal_norm real
  | Cdd_numerical_instability

text \<open>The first loop of \<open>computePolytopeProjection\<close>: row \<open>i\<close> of \<open>m_h\<close>, \<open>m_H\<close>.\<close>

fun copy_rows ::
  "(real \<times> Vector6) list \<Rightarrow> nat \<Rightarrow> Vector6 list \<times> real list \<Rightarrow> Vector6 list \<times> real list" where
  "copy_rows [] i (H, h) = (H, h)"
| "copy_rows ((b, a) # rest) i (H, h) = copy_rows rest (Suc i) (H[i := neg6 a], h[i := b])"

text \<open>
  The second loop: for the \<open>i\<close>-th element \<open>cit\<close> of \<open>eq_rows\<close>,
  \<open>m_h(rowsize + i) = -m_h(cit)\<close> and \<open>m_H(rowsize + i) = -m_H(cit)\<close>, the latter
  with single indices.
\<close>

fun append_eq_rows ::
  "StorageOrder \<Rightarrow> nat \<Rightarrow> nat list \<Rightarrow> nat \<Rightarrow> Vector6 list \<times> real list \<Rightarrow> Vector6 list \<times> real list" where
  "append_eq_rows ord rowsize [] i (H, h) = (H, h)"
| "append_eq_rows ord rowsize (cit # rest) i (H, h) =
     (let h' = h[rowsize + i := - (h ! cit)];
          H' = set_linear ord H (rowsize + i) (- get_linear ord H cit)
      in append_eq_rows ord rowsize rest (Suc i) (H', h'))"

definition halfspace_rows ::
  "StorageOrder \<Rightarrow> fresh_memory \<Rightarrow> dd_Matrix \<Rightarrow> Vector6 list \<times> real list" where
  \<comment> \<open>the part "cdd to eigen": \<open>m_H\<close> and \<open>m_h\<close> are resized, then the two loops run\<close>
  "halfspace_rows ord mem b_A =
     (let eq_rows = eq_rows_of b_A;
          rowsize = length (dd_rows b_A);
          H0 = map (fresh_H mem) [0 ..< rowsize + length eq_rows];
          h0 = map (fresh_h mem) [0 ..< rowsize + length eq_rows]
      in append_eq_rows ord rowsize eq_rows 0 (copy_rows (dd_rows b_A) 0 (H0, h0)))"

text \<open>
  \<open>dd_DDMatrix2Poly\<close> followed by \<open>dd_CopyInequalities\<close> is the delegate, an
  argument: \<open>None\<close> when cddlib reports an error.
\<close>

definition computePolytopeProjection ::
  "StorageOrder \<Rightarrow> ((real \<times> Vector6) list \<Rightarrow> dd_Matrix option) \<Rightarrow> fresh_memory \<Rightarrow>
   'sv StaticEquilibrium \<Rightarrow> Vector6 list \<Rightarrow> failure option \<times> 'sv StaticEquilibrium" where
  "computePolytopeProjection ord dd_DDMatrix2Poly mem st v =
     (case dd_DDMatrix2Poly (cone_span_eigen_to_cdd v) of
        None \<Rightarrow> (Some Cdd_numerical_instability, st)
      | Some b_A \<Rightarrow>
          (None, st\<lparr> m_H := fst (halfspace_rows ord mem b_A),
                     m_h := snd (halfspace_rows ord mem b_A) \<rparr>))"

section \<open>Installing contacts\<close>

definition tangents :: "Vector3 \<Rightarrow> Vector3 \<times> Vector3" where
  "tangents n =
     (let T1 = cross n UnitY;
          T1 = (if norm3 T1 < 1 / 10 ^ 5 then cross n UnitX else T1);
          T2 = cross n T1
      in (normalized T1, normalized T2))"

definition generator :: "real \<Rightarrow> Vector3 \<Rightarrow> Vector3 \<Rightarrow> Vector3 \<Rightarrow> real \<Rightarrow> Vector3" where
  "generator mu T1 T2 n theta =
     normalized (add3 (add3 (scale3 (mu * sin theta) T1) (scale3 (mu * cos theta) T2)) n)"

text \<open>The loop over \<open>j\<close>: \<open>k\<close> columns are left to write, \<open>theta\<close> is accumulated.\<close>

fun fill_generators ::
  "real \<Rightarrow> Vector3 \<Rightarrow> Vector3 \<Rightarrow> Vector3 \<Rightarrow> real \<Rightarrow> nat \<Rightarrow> nat \<Rightarrow> real \<Rightarrow> Vector3 list \<Rightarrow> Vector3 list" where
  "fill_generators mu T1 T2 n delta_theta 0 j theta G = G"
| "fill_generators mu T1 T2 n delta_theta (Suc k) j theta G =
     fill_generators mu T1 T2 n delta_theta k (Suc j) (theta + delta_theta)
       (G[j := generator mu T1 T2 n theta])"

definition set_block :: "Vector6 list \<Rightarrow> nat \<Rightarrow> Vector6 list \<Rightarrow> Vector6 list" where
  \<comment> \<open>\<open>M.block(0, start, 6, length blk) = blk\<close> on the list of the columns\<close>
  "set_block M start blk = take start M @ blk @ drop (start + length blk) M"

definition contact_map :: "Vector3 \<Rightarrow> Matrix63" where
  \<comment> \<open>the matrix \<open>A\<close> of contact point \<open>p\<close>\<close>
  "contact_map p = (neg33 Identity3, crossMatrix (scale3 (- 1) p))"

text \<open>The loop over the contacts: \<open>k\<close> contacts are left, \<open>i\<close> is the next one.\<close>

fun contact_loop ::
  "real \<Rightarrow> nat \<Rightarrow> Vector3 list \<Rightarrow> Vector3 list \<Rightarrow> nat \<Rightarrow> nat \<Rightarrow> Vector3 list \<times> Vector6 list \<Rightarrow>
   failure option \<times> Vector3 list \<times> Vector6 list" where
  "contact_loop mu cg P N 0 i (G, Gc) = (None, G, Gc)"
| "contact_loop mu cg P N (Suc k) i (G, Gc) =
     (if \<bar>norm3 (N ! i) - 1\<bar> > 1 / 10 ^ 6 then (Some (Normal_norm (norm3 (N ! i))), G, Gc)
      else
        (let (T1, T2) = tangents (N ! i);
             A = contact_map (P ! i);
             G' = fill_generators mu T1 T2 (N ! i) (2 * pi / real cg) cg 0 0 G;
             Gc' = set_block Gc (cg * i) (map (mat63_vec A) G')
         in contact_loop mu cg P N k (Suc i) (G', Gc')))"

text \<open>
  \<open>setNewContacts\<close> returns \<open>true\<close> (here \<open>None\<close>) or \<open>false\<close> after an error
  message (here \<open>Some\<close> of it), with the engine as it leaves it. A failed \<open>assert\<close>
  ends the program before anything is written. \<open>m_generatorsPerContact\<close> is at least 3
  in every engine the constructor has made, so \<open>G.col(0)\<close> exists.
\<close>

definition setNewContacts ::
  "StorageOrder \<Rightarrow> ((real \<times> Vector6) list \<Rightarrow> dd_Matrix option) \<Rightarrow> fresh_memory \<Rightarrow>
   'sv StaticEquilibrium \<Rightarrow> Vector3 list \<Rightarrow> Vector3 list \<Rightarrow> real \<Rightarrow> StaticEquilibriumAlgorithm \<Rightarrow>
   failure option \<times> 'sv StaticEquilibrium" where
  "setNewContacts ord dd_DDMatrix2Poly mem st contactPoints contactNormals frictionCoefficient alg =
     (if length contactPoints \<noteq> length contactNormals then (Some Assertion_rows, st)
      else if alg = STATIC_EQUILIBRIUM_ALGORITHM_IP then (Some Algorithm_IP_not_implemented, st)
      else if alg = STATIC_EQUILIBRIUM_ALGORITHM_DIP then (Some Algorithm_DIP_not_implemented, st)
      else
        (let c = length contactPoints;
             cg = m_generatorsPerContact st;
             G0 = map (fresh_G mem) [0 ..< cg];
             Gc0 = map (fresh_G_centr mem) [0 ..< c * cg];
             (err, G, Gc) = contact_loop frictionCoefficient cg contactPoints contactNormals c 0 (G0, Gc0);
             st1 = st\<lparr> m_algorithm := alg, m_G_centr := Gc \<rparr>
         in case err of
              Some e \<Rightarrow> (Some e, st1)
            | None \<Rightarrow>
                (let f0 = foldl add3 Zero3 G;
                     st2 = st1\<lparr> m_b0_to_emax_coefficient := norm3 (cross f0 (G ! 0)) \<rparr>
                 in if alg = STATIC_EQUILIBRIUM_ALGORITHM_PP then
                      (case computePolytopeProjection ord dd_DDMatrix2Poly mem st2 (m_G_centr st2) of
                         (Some e, st3) \<Rightarrow> (Some e, st3)
                       | (None, st3) \<Rightarrow>
                           (None, st3\<lparr> m_HD := map (\<lambda>row. vec_mat63 row (m_D st3)) (m_H st3),
                                       m_Hd := map (\<lambda>row. dot6 row (m_d st3)) (m_H st3) \<rparr>))
                    else (None, st2))))"

section \<open>The external LP solver\<close>

text \<open>
  The problem handed to \<open>m_solver->solve\<close>: \<open>minimize c'x\<close> subject to
  \<open>lb <= x <= ub\<close> and \<open>Alb <= A x <= Aub\<close>, the matrix \<open>A\<close> as the list of its
  rows. The entries that depend on \<open>b0\<close> are \<open>None\<close> when \<open>b0\<close> is no real number.
  The solver is a parameter: \<open>solve\<close> maps the solver object and a problem to a
  status, a solution (by index) and the solver object afterwards;
  \<open>getObjectiveValue\<close> reads the solver object.
\<close>

record lp_problem =
  lp_c :: "real option list"
  lp_lb :: "real list"
  lp_ub :: "real list"
  lp_A :: "real list list"
  lp_Alb :: "real option list"
  lp_Aub :: "real option list"

type_synonym 'sv lp_solve = "'sv \<Rightarrow> lp_problem \<Rightarrow> LP_status \<times> (nat \<Rightarrow> real) \<times> 'sv"

fun scale6 :: "real \<Rightarrow> Vector6 \<Rightarrow> Vector6" where
  "scale6 k (a, b) = (scale3 k a, scale3 k b)"

definition matrix_rows :: "Vector6 list \<Rightarrow> real list list" where
  \<comment> \<open>the six rows of a matrix given by its columns\<close>
  "matrix_rows M = map (\<lambda>r. map (\<lambda>col. coeff6 col r) M) [0 ..< 6]"

definition times_Ones :: "Vector6 list \<Rightarrow> Vector6" where
  \<comment> \<open>\<open>M * VectorX::Ones(m)\<close>: the sum of the columns\<close>
  "times_Ones M = foldl add6 Zero6 M"

definition append_col :: "real list list \<Rightarrow> real list \<Rightarrow> real list list" where
  "append_col rows col = map (\<lambda>(row, x). row @ [x]) (zip rows col)"

definition Identity_rows :: "nat \<Rightarrow> real list list" where
  "Identity_rows m = map (\<lambda>k. (replicate m 0)[k := 1]) [0 ..< m]"

definition gravity_wrench :: "'sv StaticEquilibrium \<Rightarrow> Vector3 \<Rightarrow> Vector6" where
  \<comment> \<open>\<open>m_D * com + m_d\<close>\<close>
  "gravity_wrench st com = add6 (mat63_vec (m_D st) com) (m_d st)"

definition line_offset :: "'sv StaticEquilibrium \<Rightarrow> Vector3 \<Rightarrow> real option \<Rightarrow> real option list" where
  \<comment> \<open>\<open>m_D*a0 + m_d - m_G_centr*VectorX::Ones(m)*b0\<close>\<close>
  "line_offset st a0 b0 =
     (case b0 of
        None \<Rightarrow> replicate 6 None
      | Some b \<Rightarrow>
          map Some (list6 (add6 (gravity_wrench st a0) (neg6 (scale6 b (times_Ones (m_G_centr st)))))))"

definition lp_robustness_LP :: "'sv StaticEquilibrium \<Rightarrow> Vector3 \<Rightarrow> lp_problem" where
  "lp_robustness_LP st com =
     (let m = length (m_G_centr st) in
      \<lparr> lp_c = map Some (replicate m 0 @ [- 1]),
        lp_lb = replicate (m + 1) (- (10 ^ 5)),
        lp_ub = replicate (m + 1) (10 ^ 10),
        lp_A = append_col (matrix_rows (m_G_centr st)) (replicate 6 0)
               @ append_col (Identity_rows m) (replicate m (- 1)),
        lp_Alb = map Some (list6 (gravity_wrench st com) @ replicate m 0),
        lp_Aub = map Some (list6 (gravity_wrench st com) @ replicate m (10 ^ 100)) \<rparr>)"

definition lp_robustness_LP2 :: "'sv StaticEquilibrium \<Rightarrow> Vector3 \<Rightarrow> lp_problem" where
  "lp_robustness_LP2 st com =
     (let m = length (m_G_centr st) in
      \<lparr> lp_c = map Some (replicate m 0 @ [- 1]),
        lp_lb = replicate m 0 @ [- (10 ^ 10)],
        lp_ub = replicate (m + 1) (10 ^ 10),
        lp_A = append_col (matrix_rows (m_G_centr st)) (list6 (times_Ones (m_G_centr st))),
        lp_Alb = map Some (list6 (gravity_wrench st com)),
        lp_Aub = map Some (list6 (gravity_wrench st com)) \<rparr>)"

definition lp_robustness_DLP :: "'sv StaticEquilibrium \<Rightarrow> Vector3 \<Rightarrow> lp_problem" where
  "lp_robustness_DLP st com =
     (let m = length (m_G_centr st) in
      \<lparr> lp_c = map Some (list6 (gravity_wrench st com)),
        lp_lb = replicate 6 (- (10 ^ 100)),
        lp_ub = replicate 6 (10 ^ 100),
        lp_A = map list6 (m_G_centr st) @ [list6 (times_Ones (m_G_centr st))],
        lp_Alb = map Some (replicate m 0 @ [1]),
        lp_Aub = map Some (replicate m (10 ^ 100) @ [1]) \<rparr>)"

definition lp_line_LP :: "'sv StaticEquilibrium \<Rightarrow> Vector3 \<Rightarrow> Vector3 \<Rightarrow> real option \<Rightarrow> lp_problem" where
  "lp_line_LP st a a0 b0 =
     (let m = length (m_G_centr st) in
      \<lparr> lp_c = map Some (replicate m 0 @ [- 1]),
        lp_lb = replicate m 0 @ [- (10 ^ 5)],
        lp_ub = replicate (m + 1) (10 ^ 10),
        lp_A = append_col (matrix_rows (m_G_centr st)) (list6 (neg6 (mat63_vec (m_D st) a))),
        lp_Alb = line_offset st a0 b0,
        lp_Aub = line_offset st a0 b0 \<rparr>)"

definition lp_line_DLP :: "'sv StaticEquilibrium \<Rightarrow> Vector3 \<Rightarrow> Vector3 \<Rightarrow> real option \<Rightarrow> lp_problem" where
  "lp_line_DLP st a a0 b0 =
     (let m = length (m_G_centr st) in
      \<lparr> lp_c = line_offset st a0 b0,
        lp_lb = replicate 6 (- (10 ^ 10)),
        lp_ub = replicate 6 (10 ^ 10),
        lp_A = map list6 (m_G_centr st) @ [list6 (mat63_vec (m_D st) a)],
        lp_Alb = map Some (replicate m 0 @ [- 1]),
        lp_Aub = map Some (replicate m (10 ^ 10) @ [- 1]) \<rparr>)"

section \<open>The queries\<close>

text \<open>
  A reference parameter that a query may leave untouched (\<open>robustness\<close>,
  \<open>equilibrium\<close>, \<open>com\<close>) comes in with its value before the call and is returned.
\<close>

definition dual_status :: "LP_status \<Rightarrow> LP_status" where
  \<comment> \<open>"switch UNFEASIBLE and UNBOUNDED flags because we are solving dual problem"\<close>
  "dual_status s =
     (if s = LP_STATUS_INFEASIBLE then LP_STATUS_UNBOUNDED
      else if s = LP_STATUS_UNBOUNDED then LP_STATUS_INFEASIBLE
      else s)"

definition computeEquilibriumRobustness ::
  "'sv lp_solve \<Rightarrow> ('sv \<Rightarrow> real) \<Rightarrow> 'sv StaticEquilibrium \<Rightarrow> Vector3 \<Rightarrow> real \<Rightarrow>
   LP_status \<times> real \<times> 'sv StaticEquilibrium" where
  "computeEquilibriumRobustness solve getObjectiveValue st com robustness =
     (if length (m_G_centr st) = 0 then (LP_STATUS_INFEASIBLE, robustness, st)
      else if m_algorithm st = STATIC_EQUILIBRIUM_ALGORITHM_LP then
        (let (lpStatus, b_b0, sv) = solve (m_solver st) (lp_robustness_LP st com);
             st' = st\<lparr> m_solver := sv \<rparr>
         in if lpStatus = LP_STATUS_OPTIMAL
            then (lpStatus, convert_b0_to_emax st' (- 1 * getObjectiveValue sv), st')
            else (lpStatus, robustness, st'))
      else if m_algorithm st = STATIC_EQUILIBRIUM_ALGORITHM_LP2 then
        (let (lpStatus_primal, b_b0, sv) = solve (m_solver st) (lp_robustness_LP2 st com);
             st' = st\<lparr> m_solver := sv \<rparr>
         in if lpStatus_primal = LP_STATUS_OPTIMAL
            then (lpStatus_primal, convert_b0_to_emax st' (- 1 * getObjectiveValue sv), st')
            else (lpStatus_primal, robustness, st'))
      else if m_algorithm st = STATIC_EQUILIBRIUM_ALGORITHM_DLP then
        (let (lpStatus_dual, v, sv) = solve (m_solver st) (lp_robustness_DLP st com);
             st' = st\<lparr> m_solver := sv \<rparr>
         in if lpStatus_dual = LP_STATUS_OPTIMAL
            then (lpStatus_dual, convert_b0_to_emax st' (getObjectiveValue sv), st')
            else (dual_status lpStatus_dual, robustness, st'))
      else (LP_STATUS_ERROR, robustness, st))"

fun all_rows_nonpositive :: "real list \<Rightarrow> bool" where
  \<comment> \<open>the loop over \<open>res\<close>: the first positive entry ends it with \<open>false\<close>\<close>
  "all_rows_nonpositive [] = True"
| "all_rows_nonpositive (r # res) = (if r > 0 then False else all_rows_nonpositive res)"

definition checkRobustEquilibrium ::
  "'sv StaticEquilibrium \<Rightarrow> Vector3 \<Rightarrow> bool \<Rightarrow> real \<Rightarrow> LP_status \<times> bool" where
  "checkRobustEquilibrium st com equilibrium e_max =
     (if length (m_G_centr st) = 0 then (LP_STATUS_OPTIMAL, False)
      else if e_max \<noteq> 0 then (LP_STATUS_ERROR, equilibrium)
      else if m_algorithm st \<noteq> STATIC_EQUILIBRIUM_ALGORITHM_PP then (LP_STATUS_ERROR, equilibrium)
      else
        (let res = map (\<lambda>(row, x). dot3 row com + x) (zip (m_HD st) (m_Hd st))
         in (LP_STATUS_OPTIMAL, all_rows_nonpositive res)))"

definition findExtremumOverLine ::
  "'sv lp_solve \<Rightarrow> ('sv \<Rightarrow> real) \<Rightarrow> 'sv StaticEquilibrium \<Rightarrow> Vector3 \<Rightarrow> Vector3 \<Rightarrow> real \<Rightarrow> Vector3 \<Rightarrow>
   LP_status \<times> Vector3 \<times> 'sv StaticEquilibrium" where
  "findExtremumOverLine solve getObjectiveValue st a a0 e_max com =
     (let m = length (m_G_centr st) in
      if m = 0 then (LP_STATUS_INFEASIBLE, com, st)
      else
        (let b0 = convert_emax_to_b0 st e_max in
         if m_algorithm st = STATIC_EQUILIBRIUM_ALGORITHM_LP then
           (let (lpStatus_primal, b_p, sv) = solve (m_solver st) (lp_line_LP st a a0 b0);
                st' = st\<lparr> m_solver := sv \<rparr>
            in if lpStatus_primal = LP_STATUS_OPTIMAL
               then (lpStatus_primal, add3 a0 (scale3 (b_p m) a), st')
               else (lpStatus_primal, a0, st'))
         else if m_algorithm st = STATIC_EQUILIBRIUM_ALGORITHM_DLP then
           (let (lpStatus_dual, v, sv) = solve (m_solver st) (lp_line_DLP st a a0 b0);
                st' = st\<lparr> m_solver := sv \<rparr>
            in if lpStatus_dual = LP_STATUS_OPTIMAL then
                 (let p = getObjectiveValue sv
                  in (if m_solver_type st = SOLVER_LP_QPOASES \<and> p < - (10 ^ 7)
                      then LP_STATUS_UNBOUNDED else lpStatus_dual,
                      add3 a0 (scale3 p a), st'))
               else (dual_status lpStatus_dual, a0, st'))
         else (LP_STATUS_ERROR, com, st)))"

definition findExtremumInDirection ::
  "'sv StaticEquilibrium \<Rightarrow> Vector3 \<Rightarrow> Vector3 \<Rightarrow> real \<Rightarrow> LP_status \<times> Vector3" where
  "findExtremumInDirection st direction com e_max =
     (if length (m_G_centr st) = 0 then (LP_STATUS_INFEASIBLE, com) else (LP_STATUS_ERROR, com))"

section \<open>Closed forms of the loops\<close>

text \<open>
  What the claims say the loops compute, in their words: the \<open>g\<close> generator
  directions of a contact with normal \<open>n\<close>, at the angles \<open>j * 2 * pi / g\<close>, and
  the column of the generator matrix for generator \<open>j\<close> of contact \<open>i\<close>.
\<close>

definition contact_generators :: "real \<Rightarrow> nat \<Rightarrow> Vector3 \<Rightarrow> Vector3 list" where
  "contact_generators mu g n =
     map (\<lambda>j. generator mu (fst (tangents n)) (snd (tangents n)) n (real j * 2 * pi / real g))
       [0 ..< g]"

definition wrench_column ::
  "real \<Rightarrow> nat \<Rightarrow> Vector3 list \<Rightarrow> Vector3 list \<Rightarrow> nat \<Rightarrow> nat \<Rightarrow> Vector6" where
  "wrench_column mu g P N i j =
     mat63_vec (contact_map (P ! i)) (contact_generators mu g (N ! i) ! j)"

section \<open>Example configurations\<close>

text \<open>
  Engines of mass 1 with three and with four generators per contact, a solver object that
  counts its invocations and answers a fixed status, and two answers of the delegate.
\<close>

definition unit_engine :: "nat StaticEquilibrium" where
  "unit_engine =
     StaticEquilibrium_new (\<lambda>t. 0) (\<lambda>w sv. sv) STATIC_EQUILIBRIUM_ALGORITHM_LP 0
       ''robot'' 1 3 SOLVER_LP_QPOASES False"

definition four_engine :: "nat StaticEquilibrium" where
  "four_engine =
     StaticEquilibrium_new (\<lambda>t. 0) (\<lambda>w sv. sv) STATIC_EQUILIBRIUM_ALGORITHM_LP 0
       ''robot'' 1 4 SOLVER_LP_QPOASES False"

definition zero_memory :: fresh_memory where
  "zero_memory = \<lparr> fresh_G = (\<lambda>k. Zero3), fresh_G_centr = (\<lambda>k. Zero6),
                   fresh_H = (\<lambda>k. Zero6), fresh_h = (\<lambda>k. 0) \<rparr>"

definition stale_memory :: fresh_memory where
  \<comment> \<open>memory in which the local \<open>G\<close> finds values left behind\<close>
  "stale_memory = \<lparr> fresh_G = (\<lambda>k. if k = 0 then (1, 0, 0) else (0, 1, 0)),
                    fresh_G_centr = (\<lambda>k. Zero6), fresh_H = (\<lambda>k. Zero6), fresh_h = (\<lambda>k. 0) \<rparr>"

definition no_projection :: "(real \<times> Vector6) list \<Rightarrow> dd_Matrix option" where
  "no_projection V = None"

definition counting_solver :: "LP_status \<Rightarrow> nat lp_solve" where
  "counting_solver s sv lp = (s, (\<lambda>k. 0), Suc sv)"

definition fixed_objective :: "real \<Rightarrow> nat \<Rightarrow> real" where
  "fixed_objective p sv = p"

definition empty_engine :: "nat StaticEquilibrium" where
  \<comment> \<open>contacts installed from no contact at all\<close>
  "empty_engine =
     snd (setNewContacts ColMajor no_projection zero_memory unit_engine [] [] (1 / 2)
            STATIC_EQUILIBRIUM_ALGORITHM_DLP)"

definition dual_engine :: "nat StaticEquilibrium" where
  \<comment> \<open>one flat contact at the origin, for the dual LP\<close>
  "dual_engine =
     snd (setNewContacts ColMajor no_projection zero_memory unit_engine
            [(0, 0, 0)] [(0, 0, 1)] (1 / 2) STATIC_EQUILIBRIUM_ALGORITHM_DLP)"

definition four_installed :: "nat StaticEquilibrium" where
  \<comment> \<open>one flat contact with friction coefficient 0.5 and four generators\<close>
  "four_installed =
     snd (setNewContacts ColMajor no_projection zero_memory four_engine
            [(0, 0, 0)] [(0, 0, 1)] (1 / 2) STATIC_EQUILIBRIUM_ALGORITHM_LP)"

definition frictionless_engine :: "nat StaticEquilibrium" where
  \<comment> \<open>the same contact without friction\<close>
  "frictionless_engine =
     snd (setNewContacts ColMajor no_projection zero_memory four_engine
            [(0, 0, 0)] [(0, 0, 1)] 0 STATIC_EQUILIBRIUM_ALGORITHM_LP)"

definition halfspace_example :: dd_Matrix where
  "halfspace_example = \<lparr> dd_rows = [(0, ((0, 0, - 1), (0, 0, 0)))], dd_linset = {} \<rparr>"

definition projected_engine :: "nat StaticEquilibrium" where
  "projected_engine =
     snd (setNewContacts ColMajor (\<lambda>V. Some halfspace_example) zero_memory unit_engine
            [(0, 0, 0)] [(0, 0, 1)] (1 / 2) STATIC_EQUILIBRIUM_ALGORITHM_PP)"

definition equality_example :: dd_Matrix where
  \<comment> \<open>two rows, the first of them an equality\<close>
  "equality_example =
     \<lparr> dd_rows = [(0, ((1, 1, 0), (0, 0, 0))), (0, ((0, 1, 0), (0, 0, 0)))], dd_linset = {1} \<rparr>"

section \<open>The loops of \<open>setNewContacts\<close>\<close>

lemma fill_generators_length:
  "length (fill_generators mu T1 T2 n d k j th G) = length G"
  by (induction k arbitrary: j th G) simp_all

lemma fill_generators_nth:
  "j + k \<le> length G \<Longrightarrow> q < length G \<Longrightarrow>
   fill_generators mu T1 T2 n d k j th G ! q =
     (if j \<le> q \<and> q < j + k then generator mu T1 T2 n (th + real (q - j) * d) else G ! q)"
proof (induction k arbitrary: j th G)
  case 0
  then show ?case by auto
next
  case (Suc k)
  have step: "fill_generators mu T1 T2 n d (Suc k) j th G ! q =
      (if Suc j \<le> q \<and> q < Suc j + k then generator mu T1 T2 n (th + d + real (q - Suc j) * d)
       else G[j := generator mu T1 T2 n th] ! q)"
    using Suc.IH [of "Suc j" "G[j := generator mu T1 T2 n th]" "th + d"] Suc.prems by simp
  show ?case
  proof (cases "Suc j \<le> q \<and> q < Suc j + k")
    case True
    then have "real (q - j) = real (q - Suc j) + 1" by (simp add: Suc_diff_Suc of_nat_diff)
    then have eq: "th + d + real (q - Suc j) * d = th + real (q - j) * d" by (simp add: algebra_simps)
    have "fill_generators mu T1 T2 n d (Suc k) j th G ! q
          = generator mu T1 T2 n (th + d + real (q - Suc j) * d)"
      using step True by (simp only: if_P if_True)
    also have "\<dots> = generator mu T1 T2 n (th + real (q - j) * d)" by (simp only: eq)
    finally have res: "fill_generators mu T1 T2 n d (Suc k) j th G ! q
          = generator mu T1 T2 n (th + real (q - j) * d)" .
    have "j \<le> q \<and> q < j + Suc k" using True by simp
    then show ?thesis using res by (simp only: if_P if_True)
  next
    case False
    then have res: "fill_generators mu T1 T2 n d (Suc k) j th G ! q = G[j := generator mu T1 T2 n th] ! q"
      using step by (simp only: if_not_P if_False)
    show ?thesis
    proof (cases "q = j")
      case True
      then show ?thesis using res Suc.prems by simp
    next
      case neq: False
      then have "\<not> (j \<le> q \<and> q < j + Suc k)" using False by auto
      then show ?thesis using res neq by auto
    qed
  qed
qed

lemma fill_generators_all:
  assumes "length G = g"
  shows "fill_generators mu (fst (tangents n)) (snd (tangents n)) n (2 * pi / real g) g 0 0 G
         = contact_generators mu g n"
proof (rule nth_equalityI)
  show "length (fill_generators mu (fst (tangents n)) (snd (tangents n)) n (2 * pi / real g) g 0 0 G)
        = length (contact_generators mu g n)"
    using assms by (simp add: fill_generators_length contact_generators_def)
next
  fix q
  assume "q < length (fill_generators mu (fst (tangents n)) (snd (tangents n)) n (2 * pi / real g) g 0 0 G)"
  then have q: "q < g" using assms by (simp add: fill_generators_length)
  then show "fill_generators mu (fst (tangents n)) (snd (tangents n)) n (2 * pi / real g) g 0 0 G ! q
             = contact_generators mu g n ! q"
    using assms by (simp add: fill_generators_nth contact_generators_def mult.assoc)
qed

lemma contact_generators_length: "length (contact_generators mu g n) = g"
  by (simp add: contact_generators_def)

lemma set_block_length:
  "start + length blk \<le> length M \<Longrightarrow> length (set_block M start blk) = length M"
  by (simp add: set_block_def)

lemma set_block_nth:
  "start + length blk \<le> length M \<Longrightarrow> q < length M \<Longrightarrow>
   set_block M start blk ! q =
     (if start \<le> q \<and> q < start + length blk then blk ! (q - start) else M ! q)"
  by (auto simp: set_block_def nth_append)

lemma block_index:
  fixes g i q :: nat
  assumes "g * i \<le> q" "q < g * i + g"
  shows "q div g = i \<and> q mod g = q - g * i"
proof -
  have g: "0 < g" using assms by (cases g) auto
  obtain r where r: "q = g * i + r" "r < g"
    using assms by (metis add_diff_inverse_nat nat_add_left_cancel_less not_less)
  then show ?thesis using g by simp
qed

lemma contact_loop_success:
  assumes "\<forall>q. i \<le> q \<and> q < i + k \<longrightarrow> \<not> \<bar>norm3 (N ! q) - 1\<bar> > 1 / 10 ^ 6"
    and "length G = g" and "g * (i + k) \<le> length Gc"
  shows "\<exists>G' Gc'. contact_loop mu g P N k i (G, Gc) = (None, G', Gc')
           \<and> length Gc' = length Gc \<and> length G' = g
           \<and> (0 < k \<longrightarrow> G' = contact_generators mu g (N ! (i + k - 1)))
           \<and> (\<forall>q < length Gc. Gc' ! q =
                 (if g * i \<le> q \<and> q < g * (i + k) then wrench_column mu g P N (q div g) (q mod g)
                  else Gc ! q))"
  using assms
proof (induction k arbitrary: i G Gc)
  case 0
  then show ?case by auto
next
  case (Suc k)
  let ?n = "N ! i"
  let ?G1 = "contact_generators mu g ?n"
  let ?Gc1 = "set_block Gc (g * i) (map (mat63_vec (contact_map (P ! i))) ?G1)"
  have valid: "\<not> \<bar>norm3 ?n - 1\<bar> > 1 / 10 ^ 6" using Suc.prems(1) by simp
  have fit: "g * i + g \<le> length Gc" using Suc.prems(3) by (simp add: algebra_simps)
  have len1: "length ?Gc1 = length Gc"
    using fit by (simp add: set_block_length contact_generators_length)
  have step: "contact_loop mu g P N (Suc k) i (G, Gc) = contact_loop mu g P N k (Suc i) (?G1, ?Gc1)"
    using valid Suc.prems(2) fill_generators_all [of G g mu ?n]
    by (simp add: Let_def case_prod_beta)
  have "\<forall>q. Suc i \<le> q \<and> q < Suc i + k \<longrightarrow> \<not> \<bar>norm3 (N ! q) - 1\<bar> > 1 / 10 ^ 6"
    using Suc.prems(1) by simp
  moreover have "length ?G1 = g" by (simp add: contact_generators_length)
  moreover have "g * (Suc i + k) \<le> length ?Gc1" using Suc.prems(3) len1 by simp
  ultimately obtain G' Gc' where r:
    "contact_loop mu g P N k (Suc i) (?G1, ?Gc1) = (None, G', Gc')"
    "length Gc' = length ?Gc1" "length G' = g"
    "0 < k \<longrightarrow> G' = contact_generators mu g (N ! (Suc i + k - 1))"
    "\<forall>q < length ?Gc1. Gc' ! q =
        (if g * Suc i \<le> q \<and> q < g * (Suc i + k) then wrench_column mu g P N (q div g) (q mod g)
         else ?Gc1 ! q)"
    using Suc.IH [of "Suc i" ?G1 ?Gc1] by blast
  have last: "G' = contact_generators mu g (N ! (i + Suc k - 1))"
  proof (cases k)
    case 0
    then show ?thesis using r(1) by simp
  next
    case (Suc k')
    then show ?thesis using r(4) by simp
  qed
  have cols: "Gc' ! q =
        (if g * i \<le> q \<and> q < g * (i + Suc k) then wrench_column mu g P N (q div g) (q mod g)
         else Gc ! q)" if q: "q < length Gc" for q
  proof -
    have qq: "q < length ?Gc1" using q len1 by (simp only:)
    note r5 = r(5) [rule_format, OF qq]
    show ?thesis
    proof (cases "g * Suc i \<le> q \<and> q < g * (Suc i + k)")
      case True
      then have "Gc' ! q = wrench_column mu g P N (q div g) (q mod g)"
        using r5 by (simp only: if_P if_True)
      moreover have "g * i \<le> q \<and> q < g * (i + Suc k)" using True by (simp add: algebra_simps)
      ultimately show ?thesis by (simp only: if_P if_True)
    next
      case False
      then have eq1: "Gc' ! q = ?Gc1 ! q" using r5 by (simp only: if_not_P if_False)
      show ?thesis
      proof (cases "g * i \<le> q \<and> q < g * i + g")
        case True
        then have dm: "q div g = i \<and> q mod g = q - g * i"
          using block_index [of g i q] by blast
        have "?Gc1 ! q = map (mat63_vec (contact_map (P ! i))) ?G1 ! (q - g * i)"
          using True fit q by (simp add: set_block_nth contact_generators_length)
        also have "\<dots> = wrench_column mu g P N i (q - g * i)"
        proof -
          have "q - g * i < length ?G1" using True by (simp add: contact_generators_length) arith
          then show ?thesis by (simp add: wrench_column_def)
        qed
        finally have "Gc' ! q = wrench_column mu g P N (q div g) (q mod g)"
          using eq1 dm by simp
        moreover have "g * i \<le> q \<and> q < g * (i + Suc k)" using True by (simp add: algebra_simps)
        ultimately show ?thesis by (simp only: if_P if_True)
      next
        case F2: False
        then have "?Gc1 ! q = Gc ! q"
          using fit q by (auto simp: set_block_nth contact_generators_length)
        moreover have "\<not> (g * i \<le> q \<and> q < g * (i + Suc k))"
          using F2 False by (auto simp: algebra_simps)
        ultimately show ?thesis using eq1 by (simp only: if_not_P if_False)
      qed
    qed
  qed
  show ?case using step r(1,2,3) len1 last cols by simp
qed

lemma contact_loop_failure:
  assumes "\<exists>q. i \<le> q \<and> q < i + k \<and> \<bar>norm3 (N ! q) - 1\<bar> > 1 / 10 ^ 6"
    and "length G = g" and "g * (i + k) \<le> length Gc"
  shows "\<exists>q G' Gc'. contact_loop mu g P N k i (G, Gc) = (Some (Normal_norm (norm3 (N ! q))), G', Gc')
           \<and> length Gc' = length Gc \<and> i \<le> q \<and> q < i + k \<and> \<bar>norm3 (N ! q) - 1\<bar> > 1 / 10 ^ 6"
  using assms
proof (induction k arbitrary: i G Gc)
  case 0
  then show ?case by auto
next
  case (Suc k)
  show ?case
  proof (cases "\<bar>norm3 (N ! i) - 1\<bar> > 1 / 10 ^ 6")
    case True
    then have "contact_loop mu g P N (Suc k) i (G, Gc) = (Some (Normal_norm (norm3 (N ! i))), G, Gc)"
      by simp
    then show ?thesis using True by (intro exI [of _ i]) simp
  next
    case False
    let ?G1 = "contact_generators mu g (N ! i)"
    let ?Gc1 = "set_block Gc (g * i) (map (mat63_vec (contact_map (P ! i))) ?G1)"
    have fit: "g * i + g \<le> length Gc" using Suc.prems(3) by (simp add: algebra_simps)
    have len1: "length ?Gc1 = length Gc"
      using fit by (simp add: set_block_length contact_generators_length)
    have step: "contact_loop mu g P N (Suc k) i (G, Gc) = contact_loop mu g P N k (Suc i) (?G1, ?Gc1)"
      using False Suc.prems(2) fill_generators_all [of G g mu "N ! i"]
      by (simp add: Let_def case_prod_beta)
    obtain q where q: "i \<le> q" "q < i + Suc k" "\<bar>norm3 (N ! q) - 1\<bar> > 1 / 10 ^ 6"
      using Suc.prems(1) by blast
    then have "q \<noteq> i" using False by auto
    then have "\<exists>q. Suc i \<le> q \<and> q < Suc i + k \<and> \<bar>norm3 (N ! q) - 1\<bar> > 1 / 10 ^ 6"
      using q by (intro exI [of _ q]) simp
    moreover have "length ?G1 = g" by (simp add: contact_generators_length)
    moreover have "g * (Suc i + k) \<le> length ?Gc1" using Suc.prems(3) len1 by simp
    ultimately obtain q' G' Gc' where r:
      "contact_loop mu g P N k (Suc i) (?G1, ?Gc1) = (Some (Normal_norm (norm3 (N ! q'))), G', Gc')"
      "length Gc' = length ?Gc1" "Suc i \<le> q'" "q' < Suc i + k" "\<bar>norm3 (N ! q') - 1\<bar> > 1 / 10 ^ 6"
      using Suc.IH [of "Suc i" ?G1 ?Gc1] by blast
    show ?thesis
      using step r len1 by (intro exI [of _ q'] exI [of _ G'] exI [of _ Gc']) simp
  qed
qed

lemma setNewContacts_unfold:
  assumes "length P = length N"
    and "alg \<noteq> STATIC_EQUILIBRIUM_ALGORITHM_IP" and "alg \<noteq> STATIC_EQUILIBRIUM_ALGORITHM_DIP"
    and "contact_loop mu (m_generatorsPerContact st) P N (length P) 0
           (map (fresh_G mem) [0 ..< m_generatorsPerContact st],
            map (fresh_G_centr mem) [0 ..< length P * m_generatorsPerContact st]) = (err, G, Gc)"
  shows "setNewContacts ord dd mem st P N mu alg =
     (let st1 = st\<lparr> m_algorithm := alg, m_G_centr := Gc \<rparr>
      in case err of
           Some e \<Rightarrow> (Some e, st1)
         | None \<Rightarrow>
             (let st2 = st1\<lparr> m_b0_to_emax_coefficient := norm3 (cross (foldl add3 Zero3 G) (G ! 0)) \<rparr>
              in if alg = STATIC_EQUILIBRIUM_ALGORITHM_PP then
                   (case computePolytopeProjection ord dd mem st2 Gc of
                      (Some e, st3) \<Rightarrow> (Some e, st3)
                    | (None, st3) \<Rightarrow>
                        (None, st3\<lparr> m_HD := map (\<lambda>row. vec_mat63 row (m_D st3)) (m_H st3),
                                    m_Hd := map (\<lambda>row. dot6 row (m_d st3)) (m_H st3) \<rparr>))
                 else (None, st2)))"
  using assms by (cases err) (simp_all add: setNewContacts_def Let_def)

lemma computePolytopeProjection_frame:
  "computePolytopeProjection ord dd mem st v = (r, st') \<Longrightarrow>
     m_G_centr st' = m_G_centr st \<and> m_algorithm st' = m_algorithm st
     \<and> m_b0_to_emax_coefficient st' = m_b0_to_emax_coefficient st
     \<and> m_d st' = m_d st \<and> m_D st' = m_D st \<and> m_solver st' = m_solver st
     \<and> m_generatorsPerContact st' = m_generatorsPerContact st
     \<and> m_solver_type st' = m_solver_type st"
  by (auto simp: computePolytopeProjection_def Let_def split: option.splits prod.splits)

lemma setNewContacts_state:
  assumes "length P = length N"
    and "alg \<noteq> STATIC_EQUILIBRIUM_ALGORITHM_IP" and "alg \<noteq> STATIC_EQUILIBRIUM_ALGORITHM_DIP"
    and "contact_loop mu (m_generatorsPerContact st) P N (length P) 0
           (map (fresh_G mem) [0 ..< m_generatorsPerContact st],
            map (fresh_G_centr mem) [0 ..< length P * m_generatorsPerContact st]) = (err, G, Gc)"
    and "setNewContacts ord dd mem st P N mu alg = (r, st')"
  shows "m_G_centr st' = Gc \<and> m_algorithm st' = alg
         \<and> (err \<noteq> None \<longrightarrow> r = err \<and> st' = st\<lparr> m_algorithm := alg, m_G_centr := Gc \<rparr>)
         \<and> (err = None \<longrightarrow>
              m_b0_to_emax_coefficient st' = norm3 (cross (foldl add3 Zero3 G) (G ! 0)))"
proof (cases err)
  case (Some e)
  then show ?thesis
    using setNewContacts_unfold [OF assms(1-4), of ord dd] assms(5) by (auto simp: Let_def)
next
  case None
  let ?st2 = "st\<lparr> m_algorithm := alg, m_G_centr := Gc,
                    m_b0_to_emax_coefficient := norm3 (cross (foldl add3 Zero3 G) (G ! 0)) \<rparr>"
  show ?thesis
  proof (cases "alg = STATIC_EQUILIBRIUM_ALGORITHM_PP")
    case False
    then show ?thesis
      using None setNewContacts_unfold [OF assms(1-4), of ord dd] assms(5) by (auto simp: Let_def)
  next
    case True
    obtain rp st3 where p: "computePolytopeProjection ord dd mem ?st2 Gc = (rp, st3)"
      by (cases "computePolytopeProjection ord dd mem ?st2 Gc") auto
    note fr = computePolytopeProjection_frame [OF p]
    show ?thesis
    proof (cases rp)
      case N2: None
      then show ?thesis
        using None True p fr setNewContacts_unfold [OF assms(1-4), of ord dd] assms(5)
        by (auto simp: Let_def)
    next
      case (Some e)
      then show ?thesis
        using None True p fr setNewContacts_unfold [OF assms(1-4), of ord dd] assms(5)
        by (auto simp: Let_def)
    qed
  qed
qed


lemma crossMatrix_cross: "mat33_vec (crossMatrix x) v = cross x v"
  by (cases x; cases v) (simp add: algebra_simps)




lemma setNewContacts_success_valid:
  assumes "fst (setNewContacts ord dd mem st P N mu alg) = None"
  shows "length P = length N \<and> alg \<noteq> STATIC_EQUILIBRIUM_ALGORITHM_IP
         \<and> alg \<noteq> STATIC_EQUILIBRIUM_ALGORITHM_DIP
         \<and> (\<forall>q < length N. \<not> \<bar>norm3 (N ! q) - 1\<bar> > 1 / 10 ^ 6)"
proof -
  have len: "length P = length N" and ip: "alg \<noteq> STATIC_EQUILIBRIUM_ALGORITHM_IP"
    and dip: "alg \<noteq> STATIC_EQUILIBRIUM_ALGORITHM_DIP"
    using assms by (auto simp: setNewContacts_def split: if_splits)
  let ?g = "m_generatorsPerContact st"
  let ?G0 = "map (fresh_G mem) [0 ..< ?g]"
  let ?Gc0 = "map (fresh_G_centr mem) [0 ..< length P * ?g]"
  have "\<not> \<bar>norm3 (N ! q) - 1\<bar> > 1 / 10 ^ 6" if q: "q < length N" for q
  proof
    assume bad: "\<bar>norm3 (N ! q) - 1\<bar> > 1 / 10 ^ 6"
    then have "\<exists>q. 0 \<le> q \<and> q < 0 + length P \<and> \<bar>norm3 (N ! q) - 1\<bar> > 1 / 10 ^ 6"
      using q len by (intro exI [of _ q]) simp
    moreover have "length ?G0 = ?g" by simp
    moreover have "?g * (0 + length P) \<le> length ?Gc0" by (simp add: mult.commute)
    ultimately obtain q' G' Gc' where loop:
      "contact_loop mu ?g P N (length P) 0 (?G0, ?Gc0) = (Some (Normal_norm (norm3 (N ! q'))), G', Gc')"
      using contact_loop_failure [of 0 "length P" N ?G0 ?g ?Gc0 mu P] by blast
    obtain r st' where res: "setNewContacts ord dd mem st P N mu alg = (r, st')"
      by (cases "setNewContacts ord dd mem st P N mu alg") auto
    have "r = Some (Normal_norm (norm3 (N ! q')))"
      using setNewContacts_state [OF len ip dip loop res] by simp
    then show False using assms res by simp
  qed
  then show ?thesis using len ip dip by blast
qed

lemma setNewContacts_valid:
  assumes "length P = length N"
    and "alg \<noteq> STATIC_EQUILIBRIUM_ALGORITHM_IP" and "alg \<noteq> STATIC_EQUILIBRIUM_ALGORITHM_DIP"
    and "\<forall>q < length N. \<not> \<bar>norm3 (N ! q) - 1\<bar> > 1 / 10 ^ 6"
  shows "\<exists>G. length (m_G_centr (snd (setNewContacts ord dd mem st P N mu alg)))
               = m_generatorsPerContact st * length P
           \<and> (\<forall>q < m_generatorsPerContact st * length P.
                 m_G_centr (snd (setNewContacts ord dd mem st P N mu alg)) ! q
                 = wrench_column mu (m_generatorsPerContact st) P N
                     (q div m_generatorsPerContact st) (q mod m_generatorsPerContact st))
           \<and> m_algorithm (snd (setNewContacts ord dd mem st P N mu alg)) = alg
           \<and> (P \<noteq> [] \<longrightarrow> G = contact_generators mu (m_generatorsPerContact st) (last N))
           \<and> m_b0_to_emax_coefficient (snd (setNewContacts ord dd mem st P N mu alg))
               = norm3 (cross (foldl add3 Zero3 G) (G ! 0))
           \<and> (alg \<noteq> STATIC_EQUILIBRIUM_ALGORITHM_PP \<longrightarrow>
                 fst (setNewContacts ord dd mem st P N mu alg) = None)"
proof -
  let ?g = "m_generatorsPerContact st"
  let ?G0 = "map (fresh_G mem) [0 ..< ?g]"
  let ?Gc0 = "map (fresh_G_centr mem) [0 ..< length P * ?g]"
  have valid: "\<forall>q. 0 \<le> q \<and> q < 0 + length P \<longrightarrow> \<not> \<bar>norm3 (N ! q) - 1\<bar> > 1 / 10 ^ 6"
    using assms(1,4) by simp
  have "length ?G0 = ?g" by simp
  moreover have "?g * (0 + length P) \<le> length ?Gc0" by (simp add: mult.commute)
  ultimately obtain G' Gc' where loop:
    "contact_loop mu ?g P N (length P) 0 (?G0, ?Gc0) = (None, G', Gc')"
    "length Gc' = length ?Gc0"
    "0 < length P \<longrightarrow> G' = contact_generators mu ?g (N ! (0 + length P - 1))"
    "\<forall>q < length ?Gc0. Gc' ! q =
        (if ?g * 0 \<le> q \<and> q < ?g * (0 + length P) then wrench_column mu ?g P N (q div ?g) (q mod ?g)
         else ?Gc0 ! q)"
    using contact_loop_success [OF valid, of ?G0 ?g ?Gc0 mu P] by blast
  obtain r st' where res: "setNewContacts ord dd mem st P N mu alg = (r, st')"
    by (cases "setNewContacts ord dd mem st P N mu alg") auto
  note s = setNewContacts_state [OF assms(1-3) loop(1) res]
  have len: "length (m_G_centr st') = ?g * length P" using s loop(2) by (simp add: mult.commute)
  have cols: "\<forall>q < ?g * length P. m_G_centr st' ! q = wrench_column mu ?g P N (q div ?g) (q mod ?g)"
    using s loop(4) by (simp add: mult.commute)
  have lastG: "P \<noteq> [] \<longrightarrow> G' = contact_generators mu ?g (last N)"
  proof
    assume "P \<noteq> []"
    then have "N \<noteq> []" "0 < length P" using assms(1) by auto
    then show "G' = contact_generators mu ?g (last N)"
      using loop(3) assms(1) by (simp add: last_conv_nth)
  qed
  have ok: "alg \<noteq> STATIC_EQUILIBRIUM_ALGORITHM_PP \<longrightarrow> r = None"
    using setNewContacts_unfold [OF assms(1-3) loop(1), of ord dd] res by (auto simp: Let_def)
  show ?thesis
    using len cols lastG ok s res by (intro exI [of _ G']) simp
qed

lemma setNewContacts_frame:
  "m_d (snd (setNewContacts ord dd mem st P N mu alg)) = m_d st
   \<and> m_D (snd (setNewContacts ord dd mem st P N mu alg)) = m_D st
   \<and> m_solver (snd (setNewContacts ord dd mem st P N mu alg)) = m_solver st
   \<and> m_solver_type (snd (setNewContacts ord dd mem st P N mu alg)) = m_solver_type st
   \<and> m_generatorsPerContact (snd (setNewContacts ord dd mem st P N mu alg)) = m_generatorsPerContact st"
  by (simp add: setNewContacts_def computePolytopeProjection_def Let_def
           split: prod.splits option.splits)

lemma computePolytopeProjection_Some:
  "dd (cone_span_eigen_to_cdd v) = Some b_A \<Longrightarrow>
   computePolytopeProjection ord dd mem st v =
     (None, st\<lparr> m_H := fst (halfspace_rows ord mem b_A), m_h := snd (halfspace_rows ord mem b_A) \<rparr>)"
  by (simp add: computePolytopeProjection_def halfspace_rows_def Let_def case_prod_beta)

lemma computePolytopeProjection_None:
  "dd (cone_span_eigen_to_cdd v) = None \<Longrightarrow>
   computePolytopeProjection ord dd mem st v = (Some Cdd_numerical_instability, st)"
  by (simp add: computePolytopeProjection_def)

lemma setNewContacts_PP_success:
  assumes "fst (setNewContacts ord dd mem st P N mu STATIC_EQUILIBRIUM_ALGORITHM_PP) = None"
  shows "\<exists>b_A. dd (cone_span_eigen_to_cdd
                    (m_G_centr (snd (setNewContacts ord dd mem st P N mu STATIC_EQUILIBRIUM_ALGORITHM_PP))))
                = Some b_A
           \<and> m_H (snd (setNewContacts ord dd mem st P N mu STATIC_EQUILIBRIUM_ALGORITHM_PP))
               = fst (halfspace_rows ord mem b_A)
           \<and> m_h (snd (setNewContacts ord dd mem st P N mu STATIC_EQUILIBRIUM_ALGORITHM_PP))
               = snd (halfspace_rows ord mem b_A)
           \<and> m_HD (snd (setNewContacts ord dd mem st P N mu STATIC_EQUILIBRIUM_ALGORITHM_PP))
               = map (\<lambda>row. vec_mat63 row (m_D st)) (fst (halfspace_rows ord mem b_A))
           \<and> m_Hd (snd (setNewContacts ord dd mem st P N mu STATIC_EQUILIBRIUM_ALGORITHM_PP))
               = map (\<lambda>row. dot6 row (m_d st)) (fst (halfspace_rows ord mem b_A))
           \<and> m_D (snd (setNewContacts ord dd mem st P N mu STATIC_EQUILIBRIUM_ALGORITHM_PP)) = m_D st
           \<and> m_d (snd (setNewContacts ord dd mem st P N mu STATIC_EQUILIBRIUM_ALGORITHM_PP)) = m_d st
           \<and> m_algorithm (snd (setNewContacts ord dd mem st P N mu STATIC_EQUILIBRIUM_ALGORITHM_PP))
               = STATIC_EQUILIBRIUM_ALGORITHM_PP"
proof -
  let ?g = "m_generatorsPerContact st"
  let ?G0 = "map (fresh_G mem) [0 ..< ?g]"
  let ?Gc0 = "map (fresh_G_centr mem) [0 ..< length P * ?g]"
  let ?PP = STATIC_EQUILIBRIUM_ALGORITHM_PP
  note v = setNewContacts_success_valid [OF assms]
  obtain err G Gc where loop: "contact_loop mu ?g P N (length P) 0 (?G0, ?Gc0) = (err, G, Gc)"
    by (cases "contact_loop mu ?g P N (length P) 0 (?G0, ?Gc0)") auto
  obtain r st' where res: "setNewContacts ord dd mem st P N mu ?PP = (r, st')"
    by (cases "setNewContacts ord dd mem st P N mu ?PP") auto
  have r: "r = None" using assms res by simp
  note s = setNewContacts_state [OF _ _ _ loop res]
  have err: "err = None" using s v r by auto
  let ?st2 = "st\<lparr> m_algorithm := ?PP, m_G_centr := Gc,
                    m_b0_to_emax_coefficient := norm3 (cross (foldl add3 Zero3 G) (G ! 0)) \<rparr>"
  note u = setNewContacts_unfold [OF _ _ _ loop, of ?PP ord dd]
  show ?thesis
  proof (cases "dd (cone_span_eigen_to_cdd Gc)")
    case None
    then have "setNewContacts ord dd mem st P N mu ?PP = (Some Cdd_numerical_instability, ?st2)"
      using u v err computePolytopeProjection_None [of dd Gc ord mem ?st2] by (simp add: Let_def)
    then show ?thesis using assms by simp
  next
    case (Some b_A)
    then have "setNewContacts ord dd mem st P N mu ?PP =
        (None, ?st2\<lparr> m_H := fst (halfspace_rows ord mem b_A), m_h := snd (halfspace_rows ord mem b_A),
                     m_HD := map (\<lambda>row. vec_mat63 row (m_D st)) (fst (halfspace_rows ord mem b_A)),
                     m_Hd := map (\<lambda>row. dot6 row (m_d st)) (fst (halfspace_rows ord mem b_A)) \<rparr>)"
      using u v err computePolytopeProjection_Some [of dd Gc b_A ord mem ?st2] by (simp add: Let_def)
    then show ?thesis using Some by (intro exI [of _ b_A]) simp
  qed
qed

lemma row_times_matrix_assoc:
  "dot3 (vec_mat63 row D) com = dot6 row (mat63_vec D com)"
proof -
  obtain a0 a1 a2 b0 b1 b2 where row: "row = ((a0, a1, a2), (b0, b1, b2))"
    by (metis prod.exhaust)
  obtain t0 t1 t2 u0 u1 u2 where D: "D = ((t0, t1, t2), (u0, u1, u2))"
    by (metis prod.exhaust)
  obtain x y z where com: "com = (x, y, z)" by (metis prod.exhaust)
  obtain t00 t01 t02 where t0: "t0 = (t00, t01, t02)" by (metis prod.exhaust)
  obtain t10 t11 t12 where t1: "t1 = (t10, t11, t12)" by (metis prod.exhaust)
  obtain t20 t21 t22 where t2: "t2 = (t20, t21, t22)" by (metis prod.exhaust)
  obtain u00 u01 u02 where u0: "u0 = (u00, u01, u02)" by (metis prod.exhaust)
  obtain u10 u11 u12 where u1: "u1 = (u10, u11, u12)" by (metis prod.exhaust)
  obtain u20 u21 u22 where u2: "u2 = (u20, u21, u22)" by (metis prod.exhaust)
  show ?thesis
    unfolding row D com t0 t1 t2 u0 u1 u2 by (simp add: algebra_simps)
qed

lemma all_rows_nonpositive_iff: "all_rows_nonpositive res = (\<forall>r \<in> set res. r \<le> 0)"
  by (induction res) (auto simp: not_less)

lemma residual_rows:
  "map (\<lambda>(row, x). dot3 row com + x) (zip (map (\<lambda>row. vec_mat63 row D) H) (map (\<lambda>row. dot6 row d) H))
   = map (\<lambda>row. dot6 row (mat63_vec D com) + dot6 row d) H"
  by (induction H) (simp_all add: row_times_matrix_assoc)

lemma foldl_add3_const:
  "foldl add3 acc (map (\<lambda>j. u) xs) = add3 acc (scale3 (real (length xs)) u)"
proof (induction xs arbitrary: acc)
  case Nil
  then show ?case by (cases acc; cases u) simp
next
  case (Cons x xs)
  then show ?case by (cases acc; cases u) (simp add: algebra_simps)
qed

lemma cross_parallel: "norm3 (cross (add3 Zero3 (scale3 k u)) u) = 0"
  by (cases u) (simp add: norm3_def Zero3_def algebra_simps)

lemma cross_Zero3: "norm3 (cross Zero3 w) = 0"
  by (cases w) (simp add: norm3_def Zero3_def)

lemma frictionless_generators:
  "contact_generators 0 g n = map (\<lambda>j. normalized n) [0 ..< g]"
proof -
  have "generator 0 T1 T2 n th = normalized n" for T1 T2 th
    by (cases T1; cases T2; cases n) (simp add: generator_def)
  then show ?thesis by (simp add: contact_generators_def)
qed

lemma frictionless_coefficient:
  "norm3 (cross (foldl add3 Zero3 (contact_generators 0 g n)) (contact_generators 0 g n ! 0)) = 0"
proof (cases g)
  case 0
  then show ?thesis by (simp add: frictionless_generators cross_Zero3)
next
  case (Suc k)
  then have "contact_generators 0 g n ! 0 = normalized n"
    by (simp add: frictionless_generators upt_conv_Cons del: upt_Suc)
  then show ?thesis using cross_parallel by (simp add: frictionless_generators foldl_add3_const)
qed

lemma norm3_unit_z: "norm3 (0, 0, 1) = 1"
  by (simp add: norm3_def)

lemma tangents_unit_z: "tangents (0, 0, 1) = ((- 1, 0, 0), (0, - 1, 0))"
  by (simp add: tangents_def UnitY_def UnitX_def Let_def norm3_def normalized_def)

lemma four_gens:
  "contact_generators (1 / 2) 4 (0, 0, 1) =
     [(0, - (1 / sqrt 5), 2 / sqrt 5), (- (1 / sqrt 5), 0, 2 / sqrt 5),
      (0, 1 / sqrt 5, 2 / sqrt 5), (1 / sqrt 5, 0, 2 / sqrt 5)]"
proof -
  have u: "[0 ..< 4] = [0, 1, 2, 3::nat]" by (simp add: upt_rec)
  have "pi * 3 / 2 = 3 / 2 * pi" by simp
  then have s3: "sin (pi * 3 / 2) = - 1" and c3: "cos (pi * 3 / 2) = 0"
    using sin_3over2_pi cos_3over2_pi by (simp_all only:)
  show ?thesis
    unfolding contact_generators_def u
    by (simp add: tangents_unit_z generator_def normalized_def norm3_def real_sqrt_divide
        power2_eq_square s3 c3)
qed

lemma four_coefficient:
  "norm3 (cross (foldl add3 Zero3 (contact_generators (1 / 2) 4 (0, 0, 1)))
                (contact_generators (1 / 2) 4 (0, 0, 1) ! 0)) = 8 / 5"
proof -
  have "sqrt (64 / 25) = 8 / (5::real)" by (rule real_sqrt_unique) (simp_all add: power2_eq_square)
  then show ?thesis unfolding four_gens by (simp add: norm3_def Zero3_def)
qed

section \<open>Facts about the examples\<close>

lemma unit_engine_fields:
  "m_generatorsPerContact unit_engine = 3" "m_G_centr unit_engine = []"
  "m_solver unit_engine = 0" "m_solver_type unit_engine = SOLVER_LP_QPOASES"
  "m_algorithm unit_engine = STATIC_EQUILIBRIUM_ALGORITHM_LP"
  "m_d unit_engine = ((0, 0, - 981 / 100), (0, 0, 0))"
  "m_D unit_engine = (((0, 0, 0), (0, 0, 0), (0, 0, 0)), ((0, - 981 / 100, 0), (981 / 100, 0, 0), (0, 0, 0)))"
  by (simp_all add: unit_engine_def StaticEquilibrium_new_def Let_def Zero3_def Zero33_def)

lemma four_engine_fields:
  "m_generatorsPerContact four_engine = 4"
  by (simp add: four_engine_def StaticEquilibrium_new_def Let_def)

lemma flat_normal_valid:
  "\<forall>q < length [(0, 0, 1 :: real)]. \<not> \<bar>norm3 ([(0, 0, 1)] ! q) - 1\<bar> > 1 / 10 ^ 6"
  by (simp add: norm3_unit_z)

lemma dual_engine_fields:
  "length (m_G_centr dual_engine) = 3" "m_G_centr dual_engine \<noteq> []"
  "m_algorithm dual_engine = STATIC_EQUILIBRIUM_ALGORITHM_DLP"
  "m_solver_type dual_engine = SOLVER_LP_QPOASES" "m_solver dual_engine = 0"
  "m_generatorsPerContact dual_engine = 3"
proof -
  have l: "length [(0, 0, 0 :: real)] = length [(0, 0, 1 :: real)]" by simp
  from setNewContacts_valid [OF l _ _ flat_normal_valid,
      of STATIC_EQUILIBRIUM_ALGORITHM_DLP ColMajor no_projection zero_memory unit_engine "1 / 2"]
  show len: "length (m_G_centr dual_engine) = 3"
    and "m_algorithm dual_engine = STATIC_EQUILIBRIUM_ALGORITHM_DLP"
    by (auto simp: dual_engine_def unit_engine_fields)
  from len show "m_G_centr dual_engine \<noteq> []" by auto
  from setNewContacts_frame [of ColMajor no_projection zero_memory unit_engine
      "[(0, 0, 0)]" "[(0, 0, 1)]" "1 / 2" STATIC_EQUILIBRIUM_ALGORITHM_DLP]
  show "m_solver_type dual_engine = SOLVER_LP_QPOASES" "m_solver dual_engine = 0"
    "m_generatorsPerContact dual_engine = 3"
    by (simp_all add: dual_engine_def unit_engine_fields)
qed

lemma empty_engine_fields:
  "m_G_centr empty_engine = []" "m_solver empty_engine = 0"
proof -
  have l: "length ([] :: Vector3 list) = length ([] :: Vector3 list)" by simp
  have v: "\<forall>q < length ([] :: Vector3 list). \<not> \<bar>norm3 ([] ! q) - 1\<bar> > 1 / 10 ^ 6" by simp
  from setNewContacts_valid [OF l _ _ v,
      of STATIC_EQUILIBRIUM_ALGORITHM_DLP ColMajor no_projection zero_memory unit_engine "1 / 2"]
  show "m_G_centr empty_engine = []" by (auto simp: empty_engine_def)
  from setNewContacts_frame [of ColMajor no_projection zero_memory unit_engine
      "[]" "[]" "1 / 2" STATIC_EQUILIBRIUM_ALGORITHM_DLP]
  show "m_solver empty_engine = 0" by (simp add: empty_engine_def unit_engine_fields)
qed

lemma setNewContacts_PP_total:
  assumes "length P = length N"
    and "\<forall>q < length N. \<not> \<bar>norm3 (N ! q) - 1\<bar> > 1 / 10 ^ 6"
    and "\<forall>V. dd V \<noteq> None"
  shows "fst (setNewContacts ord dd mem st P N mu STATIC_EQUILIBRIUM_ALGORITHM_PP) = None"
proof -
  let ?g = "m_generatorsPerContact st"
  let ?G0 = "map (fresh_G mem) [0 ..< ?g]"
  let ?Gc0 = "map (fresh_G_centr mem) [0 ..< length P * ?g]"
  have valid: "\<forall>q. 0 \<le> q \<and> q < 0 + length P \<longrightarrow> \<not> \<bar>norm3 (N ! q) - 1\<bar> > 1 / 10 ^ 6"
    using assms(1,2) by simp
  have "length ?G0 = ?g" by simp
  moreover have "?g * (0 + length P) \<le> length ?Gc0" by (simp add: mult.commute)
  ultimately obtain G' Gc' where loop:
    "contact_loop mu ?g P N (length P) 0 (?G0, ?Gc0) = (None, G', Gc')"
    using contact_loop_success [OF valid, of ?G0 ?g ?Gc0 mu P] by blast
  obtain b_A where "dd (cone_span_eigen_to_cdd Gc') = Some b_A" using assms(3) by auto
  then show ?thesis
    using setNewContacts_unfold [OF assms(1) _ _ loop, of STATIC_EQUILIBRIUM_ALGORITHM_PP ord dd]
    by (simp add: Let_def computePolytopeProjection_Some)
qed

lemma projected_engine_fields:
  "fst (setNewContacts ColMajor (\<lambda>V. Some halfspace_example) zero_memory unit_engine
            [(0, 0, 0)] [(0, 0, 1)] (1 / 2) STATIC_EQUILIBRIUM_ALGORITHM_PP) = None"
  "m_G_centr projected_engine \<noteq> []"
  "m_H projected_engine = [((0, 0, 1), (0, 0, 0))]"
  "m_d projected_engine = ((0, 0, - 981 / 100), (0, 0, 0))"
  "m_D projected_engine = (((0, 0, 0), (0, 0, 0), (0, 0, 0)), ((0, - 981 / 100, 0), (981 / 100, 0, 0), (0, 0, 0)))"
proof -
  have l: "length [(0, 0, 0 :: real)] = length [(0, 0, 1 :: real)]" by simp
  show ok: "fst (setNewContacts ColMajor (\<lambda>V. Some halfspace_example) zero_memory unit_engine
            [(0, 0, 0)] [(0, 0, 1)] (1 / 2) STATIC_EQUILIBRIUM_ALGORITHM_PP) = None"
    by (rule setNewContacts_PP_total [OF l flat_normal_valid]) simp
  from setNewContacts_valid [OF l _ _ flat_normal_valid,
      of STATIC_EQUILIBRIUM_ALGORITHM_PP ColMajor "\<lambda>V. Some halfspace_example" zero_memory unit_engine "1 / 2"]
  have "length (m_G_centr projected_engine) = 3"
    by (auto simp: projected_engine_def unit_engine_fields)
  then show "m_G_centr projected_engine \<noteq> []" by auto
  have hs: "fst (halfspace_rows ColMajor zero_memory halfspace_example) = [((0, 0, 1), (0, 0, 0))]"
    by (simp add: halfspace_rows_def halfspace_example_def eq_rows_of_def zero_memory_def Let_def)
  from setNewContacts_PP_success [OF ok]
  show "m_H projected_engine = [((0, 0, 1), (0, 0, 0))]"
    "m_d projected_engine = ((0, 0, - 981 / 100), (0, 0, 0))"
    "m_D projected_engine = (((0, 0, 0), (0, 0, 0), (0, 0, 0)), ((0, - 981 / 100, 0), (981 / 100, 0, 0), (0, 0, 0)))"
    by (auto simp: projected_engine_def hs unit_engine_fields)
qed

lemma setNewContacts_rejects:
  assumes "length P = length N"
    and "alg \<noteq> STATIC_EQUILIBRIUM_ALGORITHM_IP" and "alg \<noteq> STATIC_EQUILIBRIUM_ALGORITHM_DIP"
    and "\<exists>n \<in> set N. \<bar>norm3 n - 1\<bar> > 1 / 10 ^ 6"
  shows "\<exists>q Gc. q < length N \<and> \<bar>norm3 (N ! q) - 1\<bar> > 1 / 10 ^ 6
           \<and> length Gc = length P * m_generatorsPerContact st
           \<and> setNewContacts ord dd mem st P N mu alg
               = (Some (Normal_norm (norm3 (N ! q))), st\<lparr> m_algorithm := alg, m_G_centr := Gc \<rparr>)"
proof -
  let ?g = "m_generatorsPerContact st"
  let ?G0 = "map (fresh_G mem) [0 ..< ?g]"
  let ?Gc0 = "map (fresh_G_centr mem) [0 ..< length P * ?g]"
  obtain q0 where "q0 < length N" "\<bar>norm3 (N ! q0) - 1\<bar> > 1 / 10 ^ 6"
    using assms(4) by (auto simp: in_set_conv_nth)
  then have "\<exists>q. 0 \<le> q \<and> q < 0 + length P \<and> \<bar>norm3 (N ! q) - 1\<bar> > 1 / 10 ^ 6"
    using assms(1) by (intro exI [of _ q0]) simp
  moreover have "length ?G0 = ?g" by simp
  moreover have "?g * (0 + length P) \<le> length ?Gc0" by (simp add: mult.commute)
  ultimately obtain q G' Gc' where loop:
    "contact_loop mu ?g P N (length P) 0 (?G0, ?Gc0) = (Some (Normal_norm (norm3 (N ! q))), G', Gc')"
    "length Gc' = length ?Gc0" "q < 0 + length P" "\<bar>norm3 (N ! q) - 1\<bar> > 1 / 10 ^ 6"
    using contact_loop_failure [of 0 "length P" N ?G0 ?g ?Gc0 mu P] by blast
  obtain r st' where res: "setNewContacts ord dd mem st P N mu alg = (r, st')"
    by (cases "setNewContacts ord dd mem st P N mu alg") auto
  have "r = Some (Normal_norm (norm3 (N ! q))) \<and> st' = st\<lparr> m_algorithm := alg, m_G_centr := Gc' \<rparr>"
    using setNewContacts_state [OF assms(1-3) loop(1) res] by simp
  then show ?thesis
    using res loop(2,3,4) assms(1) by (intro exI [of _ q] exI [of _ Gc']) simp
qed

lemma norm3_half_z: "norm3 (0, 0, 1 / 2) = 1 / 2"
  by (simp add: norm3_def real_sqrt_divide)

lemma two_normals_rejected:
  "\<exists>Gc. length Gc = 6
     \<and> setNewContacts ColMajor no_projection zero_memory dual_engine
         [(0, 0, 0), (1, 0, 0)] [(0, 0, 1), (0, 0, 1 / 2)] (1 / 2) STATIC_EQUILIBRIUM_ALGORITHM_LP
       = (Some (Normal_norm (1 / 2)),
          dual_engine\<lparr> m_algorithm := STATIC_EQUILIBRIUM_ALGORITHM_LP, m_G_centr := Gc \<rparr>)"
proof -
  let ?N = "[(0, 0, 1), (0, 0, 1 / 2 :: real)]"
  have l: "length [(0, 0, 0 :: real), (1, 0, 0)] = length ?N" by simp
  have bad: "\<exists>n \<in> set ?N. \<bar>norm3 n - 1\<bar> > 1 / 10 ^ 6" by (simp add: norm3_half_z)
  have g: "m_generatorsPerContact dual_engine = 3" by (rule dual_engine_fields)
  obtain q Gc where r: "q < length ?N" "\<bar>norm3 (?N ! q) - 1\<bar> > 1 / 10 ^ 6"
    "length Gc = length [(0, 0, 0 :: real), (1, 0, 0)] * m_generatorsPerContact dual_engine"
    "setNewContacts ColMajor no_projection zero_memory dual_engine
         [(0, 0, 0), (1, 0, 0)] ?N (1 / 2) STATIC_EQUILIBRIUM_ALGORITHM_LP
       = (Some (Normal_norm (norm3 (?N ! q))),
          dual_engine\<lparr> m_algorithm := STATIC_EQUILIBRIUM_ALGORITHM_LP, m_G_centr := Gc \<rparr>)"
    using setNewContacts_rejects [OF l _ _ bad, of STATIC_EQUILIBRIUM_ALGORITHM_LP dual_engine
        ColMajor no_projection zero_memory "1 / 2"] by auto
  have "q = 1"
  proof (cases q)
    case 0
    then show ?thesis using r(2) by (simp add: norm3_unit_z)
  next
    case (Suc k)
    then show ?thesis using r(1) by simp
  qed
  then show ?thesis using r(3,4) g by (intro exI [of _ Gc]) (simp add: norm3_half_z)
qed

lemma four_installed_fields:
  "fst (setNewContacts ColMajor no_projection zero_memory four_engine
            [(0, 0, 0)] [(0, 0, 1)] (1 / 2) STATIC_EQUILIBRIUM_ALGORITHM_LP) = None"
  "m_b0_to_emax_coefficient four_installed = 8 / 5"
  "fst (setNewContacts ColMajor no_projection zero_memory four_engine
            [(0, 0, 0)] [(0, 0, 1)] 0 STATIC_EQUILIBRIUM_ALGORITHM_LP) = None"
proof -
  have l: "length [(0, 0, 0 :: real)] = length [(0, 0, 1 :: real)]" by simp
  from setNewContacts_valid [OF l _ _ flat_normal_valid,
      of STATIC_EQUILIBRIUM_ALGORITHM_LP ColMajor no_projection zero_memory four_engine "1 / 2"]
  show "fst (setNewContacts ColMajor no_projection zero_memory four_engine
            [(0, 0, 0)] [(0, 0, 1)] (1 / 2) STATIC_EQUILIBRIUM_ALGORITHM_LP) = None"
    and "m_b0_to_emax_coefficient four_installed = 8 / 5"
    by (auto simp: four_installed_def four_engine_fields four_coefficient)
  from setNewContacts_valid [OF l _ _ flat_normal_valid,
      of STATIC_EQUILIBRIUM_ALGORITHM_LP ColMajor no_projection zero_memory four_engine 0]
  show "fst (setNewContacts ColMajor no_projection zero_memory four_engine
            [(0, 0, 0)] [(0, 0, 1)] 0 STATIC_EQUILIBRIUM_ALGORITHM_LP) = None"
    by auto
qed

lemma no_contact_coefficient:
  "setNewContacts ord dd mem st [] [] mu STATIC_EQUILIBRIUM_ALGORITHM_LP
     = (None, st\<lparr> m_algorithm := STATIC_EQUILIBRIUM_ALGORITHM_LP, m_G_centr := [],
                  m_b0_to_emax_coefficient :=
                    norm3 (cross (foldl add3 Zero3 (map (fresh_G mem) [0 ..< m_generatorsPerContact st]))
                                 (map (fresh_G mem) [0 ..< m_generatorsPerContact st] ! 0)) \<rparr>)"
  by (simp add: setNewContacts_def Let_def)


section \<open>The claims\<close>



text \<open>
  C2. After construction with any mass, \<open>m_gravity\<close> is \<open>(0, 0, -9.81)\<close>, the top three
  entries of \<open>m_d\<close> are \<open>mass * gravity\<close> and the other three are zero, and \<open>m_D\<close>
  (six rows, three columns, since it multiplies a CoM) is zero but for its bottom 3x3
  block, the cross-product matrix of \<open>-mass * gravity\<close>. No operation changes \<open>m_d\<close>
  or \<open>m_D\<close>.
\<close>

theorem gravity_wrench_constants:
  "m_gravity (StaticEquilibrium_new getNewSolver setUseWarmStart alg0 coeff0 name mass g solver_type ws)
     = (0, 0, - 981 / 100)
   \<and> m_d (StaticEquilibrium_new getNewSolver setUseWarmStart alg0 coeff0 name mass g solver_type ws)
     = (scale3 mass (0, 0, - 981 / 100), (0, 0, 0))
   \<and> m_D (StaticEquilibrium_new getNewSolver setUseWarmStart alg0 coeff0 name mass g solver_type ws)
     = (((0, 0, 0), (0, 0, 0), (0, 0, 0)), crossMatrix (neg3 (scale3 mass (0, 0, - 981 / 100))))
   \<and> m_d (snd (setNewContacts ord dd mem st P N mu alg)) = m_d st
   \<and> m_D (snd (setNewContacts ord dd mem st P N mu alg)) = m_D st
   \<and> m_d (snd (computePolytopeProjection ord dd mem st v)) = m_d st
   \<and> m_D (snd (computePolytopeProjection ord dd mem st v)) = m_D st
   \<and> m_d (snd (snd (computeEquilibriumRobustness solve getObjectiveValue st com robustness))) = m_d st
   \<and> m_D (snd (snd (computeEquilibriumRobustness solve getObjectiveValue st com robustness))) = m_D st
   \<and> m_d (snd (snd (findExtremumOverLine solve getObjectiveValue st a a0 e_max com))) = m_d st
   \<and> m_D (snd (snd (findExtremumOverLine solve getObjectiveValue st a a0 e_max com))) = m_D st"
proof -
  have c: "m_gravity (StaticEquilibrium_new getNewSolver setUseWarmStart alg0 coeff0 name mass g solver_type ws)
     = (0, 0, - 981 / 100)
   \<and> m_d (StaticEquilibrium_new getNewSolver setUseWarmStart alg0 coeff0 name mass g solver_type ws)
     = (scale3 mass (0, 0, - 981 / 100), (0, 0, 0))
   \<and> m_D (StaticEquilibrium_new getNewSolver setUseWarmStart alg0 coeff0 name mass g solver_type ws)
     = (((0, 0, 0), (0, 0, 0), (0, 0, 0)), crossMatrix (neg3 (scale3 mass (0, 0, - 981 / 100))))"
    by (simp add: StaticEquilibrium_new_def Let_def Zero3_def Zero33_def)
  have p: "m_d (snd (computePolytopeProjection ord dd mem st v)) = m_d st
   \<and> m_D (snd (computePolytopeProjection ord dd mem st v)) = m_D st"
    by (simp add: computePolytopeProjection_def split: option.splits)
  have r: "m_d (snd (snd (computeEquilibriumRobustness solve getObjectiveValue st com robustness))) = m_d st
   \<and> m_D (snd (snd (computeEquilibriumRobustness solve getObjectiveValue st com robustness))) = m_D st"
    by (simp add: computeEquilibriumRobustness_def Let_def split: prod.splits)
  have l: "m_d (snd (snd (findExtremumOverLine solve getObjectiveValue st a a0 e_max com))) = m_d st
   \<and> m_D (snd (snd (findExtremumOverLine solve getObjectiveValue st a a0 e_max com))) = m_D st"
    by (simp add: findExtremumOverLine_def Let_def split: prod.splits)
  show ?thesis using c p r l setNewContacts_frame [of ord dd mem st P N mu alg] by simp
qed

theorem gravity_wrench_constants_witness:
  "m_d (StaticEquilibrium_new (\<lambda>t. 0 :: nat) (\<lambda>w sv. sv) STATIC_EQUILIBRIUM_ALGORITHM_LP 0
          ''robot'' 2 3 SOLVER_LP_QPOASES False)
     = ((0, 0, - 981 / 50), (0, 0, 0))
   \<and> m_D (StaticEquilibrium_new (\<lambda>t. 0 :: nat) (\<lambda>w sv. sv) STATIC_EQUILIBRIUM_ALGORITHM_LP 0
          ''robot'' 2 3 SOLVER_LP_QPOASES False)
     = (((0, 0, 0), (0, 0, 0), (0, 0, 0)), ((0, - 981 / 50, 0), (981 / 50, 0, 0), (0, 0, 0)))
   \<and> m_d dual_engine = m_d unit_engine \<and> m_D dual_engine = m_D unit_engine"
  using gravity_wrench_constants [of "\<lambda>t. 0 :: nat" "\<lambda>w sv. sv" STATIC_EQUILIBRIUM_ALGORITHM_LP 0
      "''robot''" 2 3 SOLVER_LP_QPOASES False ColMajor no_projection zero_memory unit_engine
      "[(0, 0, 0)]" "[(0, 0, 1)]" "1 / 2" STATIC_EQUILIBRIUM_ALGORITHM_DLP]
  by (simp add: dual_engine_def)

text \<open>
  C3 (amended). For a nonempty configuration with the dual-LP algorithm,
  \<open>computeEquilibriumRobustness\<close> returns the solver's status with INFEASIBLE and
  UNBOUNDED swapped and OPTIMAL (and ERROR) unchanged. The dual-LP branch of
  \<open>findExtremumOverLine\<close> does the same, except that an OPTIMAL status becomes
  UNBOUNDED when the solver is QPOASES and the objective value is below -1e7.
\<close>

theorem dual_status_swap:
  assumes "m_G_centr st \<noteq> []" and "m_algorithm st = STATIC_EQUILIBRIUM_ALGORITHM_DLP"
    and "solve (m_solver st) (lp_robustness_DLP st com) = (s1, v1, sv1)"
    and "solve (m_solver st) (lp_line_DLP st a a0 (convert_emax_to_b0 st e_max)) = (s2, v2, sv2)"
  shows "fst (computeEquilibriumRobustness solve getObjectiveValue st com robustness) = dual_status s1
       \<and> fst (findExtremumOverLine solve getObjectiveValue st a a0 e_max com') =
           (if s2 = LP_STATUS_OPTIMAL \<and> m_solver_type st = SOLVER_LP_QPOASES
                \<and> getObjectiveValue sv2 < - (10 ^ 7)
            then LP_STATUS_UNBOUNDED else dual_status s2)
       \<and> dual_status LP_STATUS_INFEASIBLE = LP_STATUS_UNBOUNDED
       \<and> dual_status LP_STATUS_UNBOUNDED = LP_STATUS_INFEASIBLE
       \<and> dual_status LP_STATUS_OPTIMAL = LP_STATUS_OPTIMAL
       \<and> dual_status LP_STATUS_ERROR = LP_STATUS_ERROR"
  using assms
  by (simp add: computeEquilibriumRobustness_def findExtremumOverLine_def dual_status_def Let_def)

theorem dual_status_swap_witness:
  "m_G_centr dual_engine \<noteq> []
   \<and> m_algorithm dual_engine = STATIC_EQUILIBRIUM_ALGORITHM_DLP
   \<and> fst (computeEquilibriumRobustness (counting_solver LP_STATUS_INFEASIBLE) (fixed_objective 0)
            dual_engine (0, 0, 1 / 2) 0) = LP_STATUS_UNBOUNDED
   \<and> fst (findExtremumOverLine (counting_solver LP_STATUS_INFEASIBLE) (fixed_objective 0)
            dual_engine (1, 0, 0) (0, 0, 1 / 2) 0 (0, 0, 0)) = LP_STATUS_UNBOUNDED"
  using dual_status_swap [of dual_engine "counting_solver LP_STATUS_INFEASIBLE" "(0, 0, 1 / 2)"
      LP_STATUS_INFEASIBLE "\<lambda>k. 0" "Suc 0" "(1, 0, 0)" "(0, 0, 1 / 2)" 0
      LP_STATUS_INFEASIBLE "\<lambda>k. 0" "Suc 0" "fixed_objective 0" 0 "(0, 0, 0)"]
  by (simp add: dual_engine_fields counting_solver_def dual_status_def)

text \<open>
  C3, as it is written, fails: with the QPOASES solver, an OPTIMAL status with
  objective value -2e7 comes back from \<open>findExtremumOverLine\<close> as UNBOUNDED.
\<close>

theorem dual_optimal_status_counterexample:
  "m_G_centr dual_engine \<noteq> []
   \<and> m_algorithm dual_engine = STATIC_EQUILIBRIUM_ALGORITHM_DLP
   \<and> fst (counting_solver LP_STATUS_OPTIMAL (m_solver dual_engine)
            (lp_line_DLP dual_engine (1, 0, 0) (0, 0, 1 / 2) (convert_emax_to_b0 dual_engine 0)))
       = LP_STATUS_OPTIMAL
   \<and> fst (findExtremumOverLine (counting_solver LP_STATUS_OPTIMAL) (fixed_objective (- 20000000))
            dual_engine (1, 0, 0) (0, 0, 1 / 2) 0 (0, 0, 0)) = LP_STATUS_UNBOUNDED"
  by (simp add: dual_engine_fields counting_solver_def fixed_objective_def
      findExtremumOverLine_def Let_def)

text \<open>
  C4. After \<open>setNewContacts\<close> has succeeded with the polytope-projection algorithm and
  left a nonempty generator matrix, \<open>checkRobustEquilibrium\<close> with \<open>e_max = 0\<close> returns
  OPTIMAL and sets \<open>equilibrium\<close> to true exactly when every row of
  \<open>H (D com) + H d\<close> is at most 0. With a nonzero \<open>e_max\<close>, or with any other algorithm
  selector, a nonempty configuration gets ERROR and \<open>equilibrium\<close> is left as it was.
\<close>

theorem checkRobustEquilibrium_halfspace_test:
  assumes "fst (setNewContacts ord dd mem st P N mu STATIC_EQUILIBRIUM_ALGORITHM_PP) = None"
    and "st' = snd (setNewContacts ord dd mem st P N mu STATIC_EQUILIBRIUM_ALGORITHM_PP)"
    and "m_G_centr st' \<noteq> []"
  shows "checkRobustEquilibrium st' com equilibrium 0
           = (LP_STATUS_OPTIMAL,
              \<forall>row \<in> set (m_H st'). dot6 row (mat63_vec (m_D st') com) + dot6 row (m_d st') \<le> 0)
         \<and> (e_max \<noteq> 0 \<longrightarrow>
              checkRobustEquilibrium st' com equilibrium e_max = (LP_STATUS_ERROR, equilibrium))
         \<and> (m_G_centr st0 \<noteq> [] \<and> (e_max \<noteq> 0 \<or> m_algorithm st0 \<noteq> STATIC_EQUILIBRIUM_ALGORITHM_PP) \<longrightarrow>
              checkRobustEquilibrium st0 com equilibrium e_max = (LP_STATUS_ERROR, equilibrium))"
proof -
  obtain b_A where pp:
    "m_H st' = fst (halfspace_rows ord mem b_A)"
    "m_HD st' = map (\<lambda>row. vec_mat63 row (m_D st)) (fst (halfspace_rows ord mem b_A))"
    "m_Hd st' = map (\<lambda>row. dot6 row (m_d st)) (fst (halfspace_rows ord mem b_A))"
    "m_D st' = m_D st" "m_d st' = m_d st" "m_algorithm st' = STATIC_EQUILIBRIUM_ALGORITHM_PP"
    using setNewContacts_PP_success [OF assms(1)] assms(2) by blast
  have "checkRobustEquilibrium st' com equilibrium 0
      = (LP_STATUS_OPTIMAL,
         all_rows_nonpositive (map (\<lambda>row. dot6 row (mat63_vec (m_D st') com) + dot6 row (m_d st')) (m_H st')))"
    using assms(3) pp by (simp add: checkRobustEquilibrium_def residual_rows)
  then have first: "checkRobustEquilibrium st' com equilibrium 0
           = (LP_STATUS_OPTIMAL,
              \<forall>row \<in> set (m_H st'). dot6 row (mat63_vec (m_D st') com) + dot6 row (m_d st') \<le> 0)"
    by (simp add: all_rows_nonpositive_iff)
  have second: "e_max \<noteq> 0 \<longrightarrow>
      checkRobustEquilibrium st' com equilibrium e_max = (LP_STATUS_ERROR, equilibrium)"
    using assms(3) by (simp add: checkRobustEquilibrium_def)
  have third: "m_G_centr st0 \<noteq> [] \<and> (e_max \<noteq> 0 \<or> m_algorithm st0 \<noteq> STATIC_EQUILIBRIUM_ALGORITHM_PP) \<longrightarrow>
      checkRobustEquilibrium st0 com equilibrium e_max = (LP_STATUS_ERROR, equilibrium)"
    by (auto simp: checkRobustEquilibrium_def)
  show ?thesis using first second third by blast
qed

theorem checkRobustEquilibrium_halfspace_test_witness:
  "fst (setNewContacts ColMajor (\<lambda>V. Some halfspace_example) zero_memory unit_engine
            [(0, 0, 0)] [(0, 0, 1)] (1 / 2) STATIC_EQUILIBRIUM_ALGORITHM_PP) = None
   \<and> m_G_centr projected_engine \<noteq> []
   \<and> checkRobustEquilibrium projected_engine (0, 0, 1 / 2) False 0 = (LP_STATUS_OPTIMAL, True)
   \<and> checkRobustEquilibrium projected_engine (0, 0, 1 / 2) False 1 = (LP_STATUS_ERROR, False)
   \<and> m_G_centr dual_engine \<noteq> []
   \<and> m_algorithm dual_engine \<noteq> STATIC_EQUILIBRIUM_ALGORITHM_PP
   \<and> checkRobustEquilibrium dual_engine (0, 0, 1 / 2) True 0 = (LP_STATUS_ERROR, True)"
  using checkRobustEquilibrium_halfspace_test [of ColMajor "\<lambda>V. Some halfspace_example" zero_memory
      unit_engine "[(0, 0, 0)]" "[(0, 0, 1)]" "1 / 2" projected_engine "(0, 0, 1 / 2)" False 1
      dual_engine]
    checkRobustEquilibrium_halfspace_test [of ColMajor "\<lambda>V. Some halfspace_example" zero_memory
      unit_engine "[(0, 0, 0)]" "[(0, 0, 1)]" "1 / 2" projected_engine "(0, 0, 1 / 2)" True 0
      dual_engine]
    projected_engine_fields(1)
  by (simp add: projected_engine_fields(2-5) dual_engine_fields projected_engine_def [symmetric])

text \<open>
  C5. With an empty generator matrix, \<open>computeEquilibriumRobustness\<close>,
  \<open>findExtremumOverLine\<close> and \<open>findExtremumInDirection\<close> return INFEASIBLE and
  \<open>checkRobustEquilibrium\<close> sets \<open>equilibrium\<close> to false, whatever the solver is: the
  engine, its solver object included, is returned as it was, and the outputs are untouched.
\<close>

theorem zero_contacts_infeasible:
  assumes "m_G_centr st = []"
  shows "computeEquilibriumRobustness solve getObjectiveValue st com robustness
           = (LP_STATUS_INFEASIBLE, robustness, st)
       \<and> findExtremumOverLine solve getObjectiveValue st a a0 e_max com'
           = (LP_STATUS_INFEASIBLE, com', st)
       \<and> findExtremumInDirection st direction com' e_max = (LP_STATUS_INFEASIBLE, com')
       \<and> checkRobustEquilibrium st com equilibrium e_max = (LP_STATUS_OPTIMAL, False)"
  using assms
  by (simp add: computeEquilibriumRobustness_def findExtremumOverLine_def
      findExtremumInDirection_def checkRobustEquilibrium_def)

theorem zero_contacts_infeasible_witness:
  "m_G_centr empty_engine = []
   \<and> computeEquilibriumRobustness (counting_solver LP_STATUS_OPTIMAL) (fixed_objective 1)
        empty_engine (0, 0, 1 / 2) 7 = (LP_STATUS_INFEASIBLE, 7, empty_engine)
   \<and> m_solver (snd (snd (findExtremumOverLine (counting_solver LP_STATUS_OPTIMAL) (fixed_objective 1)
        empty_engine (1, 0, 0) (0, 0, 1 / 2) 0 (0, 0, 0)))) = 0
   \<and> checkRobustEquilibrium empty_engine (0, 0, 1 / 2) True 0 = (LP_STATUS_OPTIMAL, False)"
  using zero_contacts_infeasible [of empty_engine "counting_solver LP_STATUS_OPTIMAL"
      "fixed_objective 1" "(0, 0, 1 / 2)" 7 "(1, 0, 0)" "(0, 0, 1 / 2)" 0 "(0, 0, 0)" "(0, 0, 0)" True]
  by (simp add: empty_engine_fields checkRobustEquilibrium_def)

text \<open>
  C6 (amended). When a normal's norm differs from 1 by more than 1e-6 (with as many points
  as normals and an implemented algorithm), \<open>setNewContacts\<close> fails with the validation
  error that cites the norm of such a normal. The half-space cache, the coefficient and
  every other member are as before the call, but the algorithm selector is already the
  requested one and the generator matrix is already resized to \<open>c * g\<close> columns. For the
  two unimplemented algorithms the call fails with nothing changed.
\<close>

theorem setNewContacts_invalid_normal:
  assumes "length P = length N" and "\<exists>n \<in> set N. \<bar>norm3 n - 1\<bar> > 1 / 10 ^ 6"
  shows "(alg \<noteq> STATIC_EQUILIBRIUM_ALGORITHM_IP \<and> alg \<noteq> STATIC_EQUILIBRIUM_ALGORITHM_DIP \<longrightarrow>
           (\<exists>q Gc. q < length N \<and> \<bar>norm3 (N ! q) - 1\<bar> > 1 / 10 ^ 6
              \<and> length Gc = length P * m_generatorsPerContact st
              \<and> setNewContacts ord dd mem st P N mu alg
                  = (Some (Normal_norm (norm3 (N ! q))), st\<lparr> m_algorithm := alg, m_G_centr := Gc \<rparr>)))
       \<and> setNewContacts ord dd mem st P N mu STATIC_EQUILIBRIUM_ALGORITHM_IP
           = (Some Algorithm_IP_not_implemented, st)
       \<and> setNewContacts ord dd mem st P N mu STATIC_EQUILIBRIUM_ALGORITHM_DIP
           = (Some Algorithm_DIP_not_implemented, st)"
  using setNewContacts_rejects [OF assms(1) _ _ assms(2), of alg st ord dd mem mu] assms(1)
  by (simp add: setNewContacts_def)

theorem setNewContacts_invalid_normal_witness:
  "\<bar>norm3 (0, 0, 1 / 2) - 1\<bar> > 1 / 10 ^ 6
   \<and> (\<exists>Gc. length Gc = 6
        \<and> setNewContacts ColMajor no_projection zero_memory dual_engine
            [(0, 0, 0), (1, 0, 0)] [(0, 0, 1), (0, 0, 1 / 2)] (1 / 2) STATIC_EQUILIBRIUM_ALGORITHM_LP
          = (Some (Normal_norm (1 / 2)),
             dual_engine\<lparr> m_algorithm := STATIC_EQUILIBRIUM_ALGORITHM_LP, m_G_centr := Gc \<rparr>))
   \<and> setNewContacts ColMajor no_projection zero_memory dual_engine
            [(0, 0, 0), (1, 0, 0)] [(0, 0, 1), (0, 0, 1 / 2)] (1 / 2) STATIC_EQUILIBRIUM_ALGORITHM_IP
          = (Some Algorithm_IP_not_implemented, dual_engine)"
proof -
  let ?P = "[(0, 0, 0), (1, 0, 0 :: real)]"
  let ?N = "[(0, 0, 1), (0, 0, 1 / 2 :: real)]"
  have l: "length ?P = length ?N" by simp
  have bad: "\<exists>n \<in> set ?N. \<bar>norm3 n - 1\<bar> > 1 / 10 ^ 6" by (simp add: norm3_half_z)
  note t = setNewContacts_invalid_normal [OF l bad, of STATIC_EQUILIBRIUM_ALGORITHM_LP dual_engine
      ColMajor no_projection zero_memory "1 / 2"]
  from t obtain q Gc where r: "q < length ?N" "\<bar>norm3 (?N ! q) - 1\<bar> > 1 / 10 ^ 6"
    "length Gc = length ?P * m_generatorsPerContact dual_engine"
    "setNewContacts ColMajor no_projection zero_memory dual_engine ?P ?N (1 / 2)
         STATIC_EQUILIBRIUM_ALGORITHM_LP
       = (Some (Normal_norm (norm3 (?N ! q))),
          dual_engine\<lparr> m_algorithm := STATIC_EQUILIBRIUM_ALGORITHM_LP, m_G_centr := Gc \<rparr>)"
    by auto
  have "q = 1"
  proof (cases q)
    case 0
    then show ?thesis using r(2) by (simp add: norm3_unit_z)
  next
    case (Suc k)
    then show ?thesis using r(1) by simp
  qed
  then have "\<exists>Gc. length Gc = 6
        \<and> setNewContacts ColMajor no_projection zero_memory dual_engine ?P ?N (1 / 2)
            STATIC_EQUILIBRIUM_ALGORITHM_LP
          = (Some (Normal_norm (1 / 2)),
             dual_engine\<lparr> m_algorithm := STATIC_EQUILIBRIUM_ALGORITHM_LP, m_G_centr := Gc \<rparr>)"
    using r(3,4) by (intro exI [of _ Gc]) (simp add: norm3_half_z dual_engine_fields)
  then show ?thesis using t by (simp add: norm3_half_z)
qed

text \<open>
  C6, as it is written, fails: a call with the LP algorithm and a second normal of
  norm 0.5 is rejected, and the engine that was configured for the dual LP with three
  columns now has the LP selector and a generator matrix of six columns.
\<close>

theorem setNewContacts_state_changed_counterexample:
  "fst (setNewContacts ColMajor no_projection zero_memory dual_engine
         [(0, 0, 0), (1, 0, 0)] [(0, 0, 1), (0, 0, 1 / 2)] (1 / 2) STATIC_EQUILIBRIUM_ALGORITHM_LP)
     = Some (Normal_norm (1 / 2))
   \<and> m_algorithm dual_engine = STATIC_EQUILIBRIUM_ALGORITHM_DLP
   \<and> m_algorithm (snd (setNewContacts ColMajor no_projection zero_memory dual_engine
         [(0, 0, 0), (1, 0, 0)] [(0, 0, 1), (0, 0, 1 / 2)] (1 / 2) STATIC_EQUILIBRIUM_ALGORITHM_LP))
     = STATIC_EQUILIBRIUM_ALGORITHM_LP
   \<and> length (m_G_centr dual_engine) = 3
   \<and> length (m_G_centr (snd (setNewContacts ColMajor no_projection zero_memory dual_engine
         [(0, 0, 0), (1, 0, 0)] [(0, 0, 1), (0, 0, 1 / 2)] (1 / 2) STATIC_EQUILIBRIUM_ALGORITHM_LP)))
     = 6"
  using two_normals_rejected by (auto simp: dual_engine_fields)

text \<open>
  C7. The code evaluated where the delegate answers two rows of which the first is an
  equality. The claim asks for the rows \<open>(-1,-1,0,0,0,0)\<close>, \<open>(0,-1,0,0,0,0)\<close> and
  \<open>(1,1,0,0,0,0)\<close>. The loop over \<open>eq_rows\<close> assigns one coefficient only, through
  single indices, and reads the element of \<open>linset\<close>, which counts from 1, as an index
  that counts from 0: in column-major storage the third row is uninitialised memory but for
  a first coefficient 0; in row-major storage it is all uninitialised, and a coefficient of
  the first row is overwritten.
\<close>

theorem computePolytopeProjection_equality_rows:
  "m_H (snd (computePolytopeProjection ColMajor (\<lambda>V. Some equality_example) mem st v))
     = [((- 1, - 1, 0), (0, 0, 0)), ((0, - 1, 0), (0, 0, 0)), set_coeff6 (fresh_H mem 2) 0 0]
   \<and> m_H (snd (computePolytopeProjection RowMajor (\<lambda>V. Some equality_example) mem st v))
     = [((- 1, - 1, 1), (0, 0, 0)), ((0, - 1, 0), (0, 0, 0)), fresh_H mem 2]
   \<and> m_H (snd (computePolytopeProjection ord (\<lambda>V. Some equality_example) mem st v))
     \<noteq> [((- 1, - 1, 0), (0, 0, 0)), ((0, - 1, 0), (0, 0, 0)), ((1, 1, 0), (0, 0, 0))]"
proof -
  have rows: "dd_rows equality_example = [(0, ((1, 1, 0), (0, 0, 0))), (0, ((0, 1, 0), (0, 0, 0)))]"
    by (simp add: equality_example_def)
  have e: "eq_rows_of equality_example = [Suc 0]"
    by (simp add: eq_rows_of_def equality_example_def upt_rec)
  have u: "[0 ..< Suc (Suc (Suc 0))] = [0, Suc 0, Suc (Suc 0)]" by (simp add: upt_rec)
  have hs: "halfspace_rows ord mem equality_example
     = append_eq_rows ord (Suc (Suc 0)) [Suc 0] 0
         (copy_rows [(0, ((1, 1, 0), (0, 0, 0))), (0, ((0, 1, 0), (0, 0, 0)))] 0
            ([fresh_H mem 0, fresh_H mem (Suc 0), fresh_H mem (Suc (Suc 0))],
             [fresh_h mem 0, fresh_h mem (Suc 0), fresh_h mem (Suc (Suc 0))]))" for ord
    unfolding halfspace_rows_def e rows Let_def by (simp add: u)
  have two: "Suc (Suc 0) = 2" by simp
  have c: "fst (halfspace_rows ColMajor mem equality_example)
     = [((- 1, - 1, 0), (0, 0, 0)), ((0, - 1, 0), (0, 0, 0)), set_coeff6 (fresh_H mem 2) 0 0]"
    unfolding hs
    by (simp add: set_linear_def get_linear_def linear_pos_def coeff6_def two)
  have r: "fst (halfspace_rows RowMajor mem equality_example)
     = [((- 1, - 1, 1), (0, 0, 0)), ((0, - 1, 0), (0, 0, 0)), fresh_H mem 2]"
    unfolding hs
    by (simp add: set_linear_def get_linear_def linear_pos_def coeff6_def two)
  have "set_coeff6 x 0 0 \<noteq> ((1, 1, 0), (0, 0, 0))" for x
  proof -
    obtain a0 a1 a2 b where "x = ((a0, a1, a2), b)" by (metis prod.exhaust)
    then show ?thesis by simp
  qed
  then have n: "fst (halfspace_rows ord mem equality_example)
     \<noteq> [((- 1, - 1, 0), (0, 0, 0)), ((0, - 1, 0), (0, 0, 0)), ((1, 1, 0), (0, 0, 0))]"
    using c r by (cases ord) simp_all
  show ?thesis using c r n by (simp add: computePolytopeProjection_def)
qed

theorem computePolytopeProjection_equality_rows_witness:
  "m_H (snd (computePolytopeProjection ColMajor (\<lambda>V. Some equality_example) zero_memory unit_engine []))
     = [((- 1, - 1, 0), (0, 0, 0)), ((0, - 1, 0), (0, 0, 0)), ((0, 0, 0), (0, 0, 0))]
   \<and> m_H (snd (computePolytopeProjection RowMajor (\<lambda>V. Some equality_example) zero_memory unit_engine []))
     = [((- 1, - 1, 1), (0, 0, 0)), ((0, - 1, 0), (0, 0, 0)), ((0, 0, 0), (0, 0, 0))]"
  using computePolytopeProjection_equality_rows [of zero_memory unit_engine "[]" ColMajor]
  by (simp add: zero_memory_def Zero6_def Zero3_def)

text \<open>
  C8 (amended). After a successful \<open>setNewContacts\<close> with at least one contact, the
  coefficient is the norm of \<open>f0 x G.col(0)\<close>, where \<open>G\<close> holds the \<open>g\<close> generator
  directions of the last contact and \<open>f0\<close> is their sum. It is set by \<open>setNewContacts\<close>,
  which takes no CoM, and the queries that take a CoM leave it as it is.
\<close>

theorem setNewContacts_b0_to_emax_coefficient:
  assumes "fst (setNewContacts ord dd mem st P N mu alg) = None" and "P \<noteq> []"
  shows "m_b0_to_emax_coefficient (snd (setNewContacts ord dd mem st P N mu alg))
         = norm3 (cross
             (foldl add3 Zero3
                (map (\<lambda>j. generator mu (fst (tangents (last N))) (snd (tangents (last N))) (last N)
                             (real j * 2 * pi / real (m_generatorsPerContact st)))
                     [0 ..< m_generatorsPerContact st]))
             (map (\<lambda>j. generator mu (fst (tangents (last N))) (snd (tangents (last N))) (last N)
                             (real j * 2 * pi / real (m_generatorsPerContact st)))
                     [0 ..< m_generatorsPerContact st] ! 0))
         \<and> m_b0_to_emax_coefficient (snd (snd (computeEquilibriumRobustness solve getObjectiveValue st0 com robustness)))
           = m_b0_to_emax_coefficient st0
         \<and> m_b0_to_emax_coefficient (snd (snd (findExtremumOverLine solve getObjectiveValue st0 a a0 e_max com)))
           = m_b0_to_emax_coefficient st0"
proof -
  note v = setNewContacts_success_valid [OF assms(1)]
  obtain G where G: "P \<noteq> [] \<longrightarrow> G = contact_generators mu (m_generatorsPerContact st) (last N)"
      "m_b0_to_emax_coefficient (snd (setNewContacts ord dd mem st P N mu alg))
               = norm3 (cross (foldl add3 Zero3 G) (G ! 0))"
    using setNewContacts_valid [of P N alg ord dd mem st mu] v by blast
  have first: "m_b0_to_emax_coefficient (snd (setNewContacts ord dd mem st P N mu alg))
      = norm3 (cross (foldl add3 Zero3 (contact_generators mu (m_generatorsPerContact st) (last N)))
                     (contact_generators mu (m_generatorsPerContact st) (last N) ! 0))"
    using G assms(2) by simp
  have q1: "m_b0_to_emax_coefficient (snd (snd (computeEquilibriumRobustness solve getObjectiveValue st0 com robustness)))
           = m_b0_to_emax_coefficient st0"
    by (simp add: computeEquilibriumRobustness_def Let_def split: prod.splits)
  have q2: "m_b0_to_emax_coefficient (snd (snd (findExtremumOverLine solve getObjectiveValue st0 a a0 e_max com)))
           = m_b0_to_emax_coefficient st0"
    by (simp add: findExtremumOverLine_def Let_def split: prod.splits)
  show ?thesis using first q1 q2 by (simp only: contact_generators_def simp_thms)
qed

theorem setNewContacts_b0_to_emax_coefficient_witness:
  "fst (setNewContacts ColMajor no_projection zero_memory four_engine
            [(0, 0, 0)] [(0, 0, 1)] (1 / 2) STATIC_EQUILIBRIUM_ALGORITHM_LP) = None
   \<and> m_b0_to_emax_coefficient four_installed = 8 / 5
   \<and> m_b0_to_emax_coefficient
        (snd (snd (computeEquilibriumRobustness (counting_solver LP_STATUS_OPTIMAL) (fixed_objective 1)
                     four_installed (0, 0, 1 / 2) 0))) = 8 / 5"
proof -
  have ne: "[(0, 0, 0 :: real)] \<noteq> []" by simp
  note t = setNewContacts_b0_to_emax_coefficient [OF four_installed_fields(1) ne,
      of "counting_solver LP_STATUS_OPTIMAL" "fixed_objective 1" four_installed "(0, 0, 1 / 2)" 0
         "(1, 0, 0)" "(0, 0, 1 / 2)" 0]
  have "m_b0_to_emax_coefficient four_installed
      = norm3 (cross (foldl add3 Zero3 (contact_generators (1 / 2) 4 (0, 0, 1)))
                     (contact_generators (1 / 2) 4 (0, 0, 1) ! 0))"
    using t by (simp add: contact_generators_def four_installed_def four_engine_fields)
  then have "m_b0_to_emax_coefficient four_installed = 8 / 5" by (simp only: four_coefficient)
  then show ?thesis using t four_installed_fields(1) by simp
qed

text \<open>
  C8, as it is written, fails: a call with no contact succeeds, there is no last contact,
  and the coefficient is computed from the local \<open>G\<close>, which nothing has written. The
  same call gives 0 or 2 with the memory it happens to find.
\<close>

theorem setNewContacts_no_contact_coefficient_counterexample:
  "fst (setNewContacts ColMajor no_projection zero_memory unit_engine [] [] (1 / 2)
          STATIC_EQUILIBRIUM_ALGORITHM_LP) = None
   \<and> fst (setNewContacts ColMajor no_projection stale_memory unit_engine [] [] (1 / 2)
          STATIC_EQUILIBRIUM_ALGORITHM_LP) = None
   \<and> m_b0_to_emax_coefficient (snd (setNewContacts ColMajor no_projection zero_memory unit_engine
          [] [] (1 / 2) STATIC_EQUILIBRIUM_ALGORITHM_LP)) = 0
   \<and> m_b0_to_emax_coefficient (snd (setNewContacts ColMajor no_projection stale_memory unit_engine
          [] [] (1 / 2) STATIC_EQUILIBRIUM_ALGORITHM_LP)) = 2"
proof -
  have u: "[0 ..< 3] = [0, 1, 2 :: nat]" by (simp add: upt_rec)
  show ?thesis
    by (simp add: no_contact_coefficient unit_engine_fields u zero_memory_def stale_memory_def
        Zero3_def norm3_def)
qed

text \<open>
  C9. In the dual-LP branch of \<open>findExtremumOverLine\<close>, on a nonempty configuration, when
  the solver is QPOASES (which cannot detect unboundedness) and answers OPTIMAL with an
  objective value below -1e7, the status returned is UNBOUNDED.
\<close>

theorem findExtremumOverLine_unbounded_heuristic:
  assumes "m_G_centr st \<noteq> []"
    and "m_algorithm st = STATIC_EQUILIBRIUM_ALGORITHM_DLP"
    and "m_solver_type st = SOLVER_LP_QPOASES"
    and "solve (m_solver st) (lp_line_DLP st a a0 (convert_emax_to_b0 st e_max))
           = (LP_STATUS_OPTIMAL, v, sv)"
    and "getObjectiveValue sv < - (10 ^ 7)"
  shows "fst (findExtremumOverLine solve getObjectiveValue st a a0 e_max com) = LP_STATUS_UNBOUNDED"
  using assms by (simp add: findExtremumOverLine_def Let_def)

theorem findExtremumOverLine_unbounded_heuristic_witness:
  "m_G_centr dual_engine \<noteq> []
   \<and> m_solver_type dual_engine = SOLVER_LP_QPOASES
   \<and> fixed_objective (- 20000000) (Suc 0) < - (10 ^ 7)
   \<and> fst (findExtremumOverLine (counting_solver LP_STATUS_OPTIMAL) (fixed_objective (- 20000000))
            dual_engine (1, 0, 0) (0, 0, 1 / 2) 0 (0, 0, 0)) = LP_STATUS_UNBOUNDED"
  using findExtremumOverLine_unbounded_heuristic [of dual_engine "counting_solver LP_STATUS_OPTIMAL"
      "(1, 0, 0)" "(0, 0, 1 / 2)" 0 "\<lambda>k. 0" "Suc 0" "fixed_objective (- 20000000)" "(0, 0, 0)"]
  by (simp add: dual_engine_fields counting_solver_def fixed_objective_def)

text \<open>
  C10. With a nonzero coefficient, \<open>convert_emax_to_b0\<close> and \<open>convert_b0_to_emax\<close> undo
  each other on every scalar. With a zero coefficient \<open>convert_emax_to_b0\<close> divides by zero
  and has no real value; contacts without friction give a zero coefficient.
\<close>

theorem convert_b0_emax_inverse:
  "(m_b0_to_emax_coefficient st \<noteq> 0 \<longrightarrow>
      map_option (convert_b0_to_emax st) (convert_emax_to_b0 st e) = Some e
      \<and> convert_emax_to_b0 st (convert_b0_to_emax st b) = Some b)
   \<and> (m_b0_to_emax_coefficient st = 0 \<longrightarrow> convert_emax_to_b0 st e = None)
   \<and> (fst (setNewContacts ord dd mem st0 P N 0 alg) = None \<and> P \<noteq> [] \<longrightarrow>
        m_b0_to_emax_coefficient (snd (setNewContacts ord dd mem st0 P N 0 alg)) = 0)"
proof -
  have inv: "(m_b0_to_emax_coefficient st \<noteq> 0 \<longrightarrow>
      map_option (convert_b0_to_emax st) (convert_emax_to_b0 st e) = Some e
      \<and> convert_emax_to_b0 st (convert_b0_to_emax st b) = Some b)
   \<and> (m_b0_to_emax_coefficient st = 0 \<longrightarrow> convert_emax_to_b0 st e = None)"
    by (simp add: convert_b0_to_emax_def convert_emax_to_b0_def)
  have "m_b0_to_emax_coefficient (snd (setNewContacts ord dd mem st0 P N 0 alg)) = 0"
    if ok: "fst (setNewContacts ord dd mem st0 P N 0 alg) = None" and ne: "P \<noteq> []"
  proof -
    note v = setNewContacts_success_valid [OF ok]
    obtain G where "P \<noteq> [] \<longrightarrow> G = contact_generators 0 (m_generatorsPerContact st0) (last N)"
      "m_b0_to_emax_coefficient (snd (setNewContacts ord dd mem st0 P N 0 alg))
               = norm3 (cross (foldl add3 Zero3 G) (G ! 0))"
      using setNewContacts_valid [of P N alg ord dd mem st0 0] v by blast
    then show ?thesis using ne frictionless_coefficient by simp
  qed
  then show ?thesis using inv by blast
qed

theorem convert_b0_emax_inverse_witness:
  "m_b0_to_emax_coefficient four_installed \<noteq> 0
   \<and> convert_emax_to_b0 four_installed 4 = Some (5 / 2)
   \<and> convert_b0_to_emax four_installed (5 / 2) = 4
   \<and> convert_emax_to_b0 four_installed (convert_b0_to_emax four_installed 5) = Some 5
   \<and> m_b0_to_emax_coefficient frictionless_engine = 0
   \<and> convert_emax_to_b0 frictionless_engine 4 = None"
  using convert_b0_emax_inverse [of four_installed 4 5 ColMajor no_projection zero_memory
      four_engine "[(0, 0, 0)]" "[(0, 0, 1)]" STATIC_EQUILIBRIUM_ALGORITHM_LP]
    convert_b0_emax_inverse [of frictionless_engine 4 5 ColMajor no_projection zero_memory
      four_engine "[(0, 0, 0)]" "[(0, 0, 1)]" STATIC_EQUILIBRIUM_ALGORITHM_LP]
  by (simp add: four_installed_fields frictionless_engine_def [symmetric]
      convert_emax_to_b0_def convert_b0_to_emax_def)

end
